theory Spec2Isabelle
  imports Complex_Main "HOL-Library.Word"
begin

section \<open>Data model\<close>

text \<open>
  The two services of the repository are embedded: the capture orchestrator
  (\<^verbatim>\<open>src/services/captureService.js\<close>) and the image storage engine
  (\<^verbatim>\<open>src/services/imageStorage.js\<close>). Every method becomes a function from the
  state before the call to the outcome and the state after it; a thrown
  \<^verbatim>\<open>Error\<close> (or a rejected promise) is the left injection of a sum, so the state an
  exception leaves behind stays visible. Clock readings, generated identifiers and
  the collaborators (directory lookup, image codec, cipher, file system faults) are
  arguments. Instants are milliseconds since the epoch: \<^verbatim>\<open>toISOString\<close> keeps
  exactly the millisecond count and \<^verbatim>\<open>new Date(iso)\<close> reads it back. All clock
  readings taken inside one call are the one instant \<open>now\<close>.
\<close>

type_synonym byte = "8 word"
type_synonym buffer = "byte list"

text \<open>Every error of the two services is a plain \<^verbatim>\<open>new Error(message)\<close>.\<close>

datatype error = Error string

record resident_info =
  resident_id :: string
  resident_name :: string
  unitNumber :: string
  phone :: string
  email :: string

text \<open>The descriptor written into \<^verbatim>\<open>session.captures[captureType]\<close>.\<close>

record capture =
  imageId :: string
  filename :: string
  timestamp :: int
  fileSize :: nat

text \<open>\<^verbatim>\<open>captures: { person: null, vehicle: null }\<close>; \<open>None\<close> is \<^verbatim>\<open>null\<close>.\<close>

record captures =
  person :: "capture option"
  vehicle :: "capture option"

record session =
  session_id :: string
  otp :: string
  residentInfo :: resident_info
  status :: string
  createdAt :: int
  captures :: captures
  mode :: "string option"
  updatedAt :: "int option"
  completedAt :: "int option"

text \<open>
  \<^verbatim>\<open>activeSessions\<close> is a JavaScript \<^verbatim>\<open>Map\<close>: keys are unique and iteration follows
  insertion order. It is an association list; \<open>Map_set\<close> overwrites in place or
  appends, \<open>Map_delete\<close> drops the key.
\<close>

type_synonym 'v js_map = "(string \<times> 'v) list"

fun Map_set :: "string \<Rightarrow> 'v \<Rightarrow> 'v js_map \<Rightarrow> 'v js_map" where
  "Map_set k v [] = [(k, v)]"
| "Map_set k v ((k', v') # m) = (if k' = k then (k, v) # m else (k', v') # Map_set k v m)"

definition Map_get :: "'v js_map \<Rightarrow> string \<Rightarrow> 'v option" where
  "Map_get m k = map_of m k"

definition Map_delete :: "string \<Rightarrow> 'v js_map \<Rightarrow> 'v js_map" where
  "Map_delete k m = filter (\<lambda>e. fst e \<noteq> k) m"

definition Map_size :: "'v js_map \<Rightarrow> nat" where
  "Map_size m = length m"

record capture_service =
  activeSessions :: "session js_map"

text \<open>The well-formedness of a \<^verbatim>\<open>Map\<close>: no key occurs twice.\<close>

definition wf_service :: "capture_service \<Rightarrow> bool" where
  "wf_service svc = distinct (map fst (activeSessions svc))"

section \<open>Image storage engine: interface records\<close>

text \<open>The metadata object \<^verbatim>\<open>processCapture\<close> hands to \<^verbatim>\<open>storeImage\<close>.\<close>

record store_metadata =
  sm_residentInfo :: resident_info
  sm_captureType :: string
  sm_timestamp :: int
  sm_sessionId :: string
  sm_otp :: string

text \<open>
  The persisted metadata record. Of the resident it keeps \<^verbatim>\<open>id\<close>, \<^verbatim>\<open>name\<close> and
  \<^verbatim>\<open>unitNumber\<close> only. \<^verbatim>\<open>compressionRatio\<close> is a JavaScript double; it is a real
  number here, so the rounding of the double is not modelled.
\<close>

record resident_snapshot =
  rs_id :: string
  rs_name :: string
  rs_unitNumber :: string

record image_metadata =
  md_id :: string
  md_filename :: string
  md_filePath :: string
  md_captureType :: string
  md_timestamp :: int
  md_residentInfo :: resident_snapshot
  md_fileSize :: nat
  originalSize :: nat
  compressionRatio :: real
  checksum :: string

record storage_result =
  success :: bool
  fileId :: string
  sr_filename :: string
  sr_filePath :: string
  metadata :: image_metadata

text \<open>
  \<^verbatim>\<open>this.imageStorage.storeImage\<close> as the orchestrator sees it: an awaited call that
  resolves to a storage result or rejects with an error.
\<close>

type_synonym store_call = "buffer option \<Rightarrow> store_metadata \<Rightarrow> error + storage_result"

section \<open>Capture orchestrator\<close>

record start_result =
  st_sessionId :: string
  st_residentInfo :: resident_info
  st_status :: string

record mode_result =
  mr_sessionId :: string
  mr_mode :: string
  mr_status :: string
  availableCaptures :: "string list"

record capture_result =
  cr_success :: bool
  cr_captureType :: string
  cr_imageId :: string
  sessionComplete :: bool
  nextAction :: string

record summary =
  sum_sessionId :: string
  sum_residentInfo :: resident_info
  sum_mode :: "string option"
  sum_captures :: captures
  sum_createdAt :: int
  sum_completedAt :: "int option"
  totalCaptures :: nat

text \<open>
  \<^verbatim>\<open>String.prototype.trim\<close>. A character of a \<open>string\<close> is one code unit below
  256, so the white space of JavaScript that fits is tab, line feed, vertical tab,
  form feed, carriage return, space and the no-break space U+00A0; the white space
  code points above 255 have no counterpart in this type.
\<close>

definition is_space :: "char \<Rightarrow> bool" where
  "is_space c =
     (c \<in> set [CHR '' '', CHR 0x09, CHR 0x0A, CHR 0x0B, CHR 0x0C, CHR 0x0D, CHR 0xA0])"

definition trim :: "string \<Rightarrow> string" where
  "trim s = rev (dropWhile is_space (rev (dropWhile is_space s)))"

definition getSession :: "capture_service \<Rightarrow> string \<Rightarrow> error + session" where
  "getSession svc sessionId =
     (case Map_get (activeSessions svc) sessionId of
        None \<Rightarrow> Inl (Error (''Session not found: '' @ sessionId))
      | Some session \<Rightarrow> Inr session)"

definition getAvailableCaptures :: "string option \<Rightarrow> string list" where
  "getAvailableCaptures m =
     (if m = Some ''pedestrian'' then [''person'']
      else if m = Some ''vehicle'' then [''person'', ''vehicle'']
      else [])"

text \<open>
  \<^verbatim>\<open>session.captures[captureType]\<close>. The orchestrator reads and writes the two keys
  \<^verbatim>\<open>person\<close> and \<^verbatim>\<open>vehicle\<close> only (the capture type is validated before the write,
  and \<open>getAvailableCaptures\<close> yields no other key); any other key is left alone.
\<close>

definition captures_get :: "captures \<Rightarrow> string \<Rightarrow> capture option" where
  "captures_get cs captureType =
     (if captureType = ''person'' then person cs
      else if captureType = ''vehicle'' then vehicle cs
      else None)"

definition captures_set :: "captures \<Rightarrow> string \<Rightarrow> capture \<Rightarrow> captures" where
  "captures_set cs captureType d =
     (if captureType = ''person'' then cs\<lparr>person := Some d\<rparr>
      else if captureType = ''vehicle'' then cs\<lparr>vehicle := Some d\<rparr>
      else cs)"

definition isSessionComplete :: "session \<Rightarrow> bool" where
  "isSessionComplete s =
     list_all (\<lambda>captureType. captures_get (captures s) captureType \<noteq> None)
       (getAvailableCaptures (mode s))"

definition getNextAction :: "session \<Rightarrow> string \<Rightarrow> string" where
  "getNextAction s completedCapture =
     (let availableCaptures = getAvailableCaptures (mode s);
          remainingCaptures =
            filter (\<lambda>captureType. captures_get (captures s) captureType = None) availableCaptures
      in case remainingCaptures of
           [] \<Rightarrow> ''complete_session''
         | c # _ \<Rightarrow> ''capture_'' @ c)"

text \<open>
  \<^verbatim>\<open>startCaptureSession(otp)\<close>. \<open>None\<close> is an OTP that is \<^verbatim>\<open>null\<close> or not a string.
  \<open>searchByOTP\<close> is the directory client's lookup and \<open>newId\<close> the value of
  \<^verbatim>\<open>generateSessionId()\<close> (clock and \<^verbatim>\<open>Math.random\<close>).
\<close>

definition startCaptureSession ::
  "(string \<Rightarrow> error + resident_info) \<Rightarrow> string \<Rightarrow> int \<Rightarrow> capture_service \<Rightarrow> string option
    \<Rightarrow> (error + start_result) \<times> capture_service" where
  "startCaptureSession searchByOTP newId now svc otp_in =
     (case otp_in of
        None \<Rightarrow> (Inl (Error ''OTP is required and must be a non-empty string''), svc)
      | Some pin \<Rightarrow>
          if length (trim pin) = 0
          then (Inl (Error ''OTP is required and must be a non-empty string''), svc)
          else
            (case searchByOTP (trim pin) of
               Inl e \<Rightarrow> (Inl e, svc)
             | Inr info \<Rightarrow>
                 let s = \<lparr>session_id = newId, otp = trim pin, residentInfo = info,
                          status = ''active'', createdAt = now,
                          captures = \<lparr>person = None, vehicle = None\<rparr>,
                          mode = None, updatedAt = None, completedAt = None\<rparr>
                 in (Inr \<lparr>st_sessionId = newId, st_residentInfo = info,
                          st_status = ''ready_for_mode_selection''\<rparr>,
                     svc\<lparr>activeSessions := Map_set newId s (activeSessions svc)\<rparr>)))"

definition setCaptureMode ::
  "int \<Rightarrow> capture_service \<Rightarrow> string \<Rightarrow> string \<Rightarrow> (error + mode_result) \<times> capture_service" where
  "setCaptureMode now svc sessionId m =
     (case getSession svc sessionId of
        Inl e \<Rightarrow> (Inl e, svc)
      | Inr s \<Rightarrow>
          if m \<notin> set [''pedestrian'', ''vehicle'']
          then (Inl (Error (''Invalid capture mode. Must be '' @ [CHR 0x22] @ ''pedestrian''
                  @ [CHR 0x22] @ '' or '' @ [CHR 0x22] @ ''vehicle'' @ [CHR 0x22])), svc)
          else
            let s' = s\<lparr>mode := Some m, updatedAt := Some now\<rparr>
            in (Inr \<lparr>mr_sessionId = sessionId, mr_mode = m, mr_status = ''ready_for_capture'',
                     availableCaptures = getAvailableCaptures (Some m)\<rparr>,
                svc\<lparr>activeSessions := Map_set sessionId s' (activeSessions svc)\<rparr>))"

text \<open>
  \<^verbatim>\<open>processCapture(sessionId, captureType, imageBuffer)\<close>. The session object is
  mutated in place inside the map, which is a write back under the same key. The
  call is one step: no other operation runs while the storage call is awaited.
\<close>

definition processCapture ::
  "store_call \<Rightarrow> int \<Rightarrow> capture_service \<Rightarrow> string \<Rightarrow> string \<Rightarrow> buffer option
    \<Rightarrow> (error + capture_result) \<times> capture_service" where
  "processCapture storeImage_call now svc sessionId captureType imageBuffer =
     (case getSession svc sessionId of
        Inl e \<Rightarrow> (Inl e, svc)
      | Inr s \<Rightarrow>
          if captureType \<notin> set [''person'', ''vehicle'']
          then (Inl (Error (''Invalid capture type. Must be '' @ [CHR 0x22] @ ''person''
                  @ [CHR 0x22] @ '' or '' @ [CHR 0x22] @ ''vehicle'' @ [CHR 0x22])), svc)
          else if mode s = Some ''pedestrian'' \<and> captureType = ''vehicle''
          then (Inl (Error ''Vehicle capture not allowed in pedestrian mode''), svc)
          else
            let md = \<lparr>sm_residentInfo = residentInfo s, sm_captureType = captureType,
                      sm_timestamp = now, sm_sessionId = sessionId, sm_otp = otp s\<rparr>
            in (case storeImage_call imageBuffer md of
                 Inl e \<Rightarrow> (Inl e, svc)
               | Inr storageResult \<Rightarrow>
                   let d = \<lparr>imageId = fileId storageResult,
                            filename = sr_filename storageResult,
                            timestamp = sm_timestamp md,
                            fileSize = md_fileSize (metadata storageResult)\<rparr>;
                       s1 = s\<lparr>captures := captures_set (captures s) captureType d,
                              updatedAt := Some now\<rparr>;
                       isComplete = isSessionComplete s1;
                       s2 = (if isComplete
                             then s1\<lparr>status := ''completed'', completedAt := Some now\<rparr>
                             else s1)
                   in (Inr \<lparr>cr_success = True, cr_captureType = captureType,
                            cr_imageId = fileId storageResult,
                            sessionComplete = isComplete,
                            nextAction = getNextAction s2 captureType\<rparr>,
                       svc\<lparr>activeSessions := Map_set sessionId s2 (activeSessions svc)\<rparr>)))"

definition completeSession ::
  "capture_service \<Rightarrow> string \<Rightarrow> (error + summary) \<times> capture_service" where
  "completeSession svc sessionId =
     (case getSession svc sessionId of
        Inl e \<Rightarrow> (Inl e, svc)
      | Inr s \<Rightarrow>
          if status s \<noteq> ''completed''
          then (Inl (Error ''Session is not ready for completion''), svc)
          else
            (Inr \<lparr>sum_sessionId = sessionId, sum_residentInfo = residentInfo s,
                  sum_mode = mode s, sum_captures = captures s,
                  sum_createdAt = createdAt s, sum_completedAt = completedAt s,
                  totalCaptures =
                    length (filter (\<lambda>c. c \<noteq> None) [person (captures s), vehicle (captures s)])\<rparr>,
             svc\<lparr>activeSessions := Map_delete sessionId (activeSessions svc)\<rparr>))"

definition getActiveSessionsCount :: "capture_service \<Rightarrow> nat" where
  "getActiveSessionsCount svc = Map_size (activeSessions svc)"

text \<open>
  \<^verbatim>\<open>cleanupExpiredSessions(maxAge)\<close>: one pass collects the identifiers whose age
  \<^verbatim>\<open>now - new Date(session.createdAt)\<close> is greater than \<open>maxAge\<close>, a second pass
  deletes them; the length of the collected list is returned.
\<close>

definition cleanupExpiredSessions :: "int \<Rightarrow> int \<Rightarrow> capture_service \<Rightarrow> nat \<times> capture_service" where
  "cleanupExpiredSessions maxAge now svc =
     (let expiredSessions =
            map fst (filter (\<lambda>(sessionId, s). now - createdAt s > maxAge) (activeSessions svc))
      in (length expiredSessions,
          svc\<lparr>activeSessions := foldl (\<lambda>m sessionId. Map_delete sessionId m)
                                   (activeSessions svc) expiredSessions\<rparr>))"

text \<open>
  The service operations as one type, to speak about sequences of calls. \<open>step\<close>
  keeps the state an operation leaves, whether it returned or threw.
\<close>

datatype op =
    Start "string \<Rightarrow> error + resident_info" string int "string option"
  | SetMode int string string
  | Capture store_call int string string "buffer option"
  | Complete string
  | Cleanup int int

fun step :: "capture_service \<Rightarrow> op \<Rightarrow> capture_service" where
  "step svc (Start searchByOTP newId now otp_in) =
     snd (startCaptureSession searchByOTP newId now svc otp_in)"
| "step svc (SetMode now sessionId m) = snd (setCaptureMode now svc sessionId m)"
| "step svc (Capture storeImage_call now sessionId captureType imageBuffer) =
     snd (processCapture storeImage_call now svc sessionId captureType imageBuffer)"
| "step svc (Complete sessionId) = snd (completeSession svc sessionId)"
| "step svc (Cleanup maxAge now) = snd (cleanupExpiredSessions maxAge now svc)"

definition run :: "capture_service \<Rightarrow> op list \<Rightarrow> capture_service" where
  "run svc ops = foldl step svc ops"

text \<open>
  The operations that write the \<^verbatim>\<open>mode\<close> field of the session stored under an
  identifier: \<^verbatim>\<open>setCaptureMode\<close> on it, and \<^verbatim>\<open>startCaptureSession\<close> when the
  generated identifier is that one (a fresh session object replaces the entry).
\<close>

fun writes_mode :: "string \<Rightarrow> op \<Rightarrow> bool" where
  "writes_mode sessionId (Start searchByOTP newId now otp_in) = (newId = sessionId)"
| "writes_mode sessionId (SetMode now sid m) = (sid = sessionId)"
| "writes_mode sessionId (Capture storeImage_call now sid captureType imageBuffer) = False"
| "writes_mode sessionId (Complete sid) = False"
| "writes_mode sessionId (Cleanup maxAge now) = False"

text \<open>
  Error messages are quoted in lower case by the specification; \<open>toLowerCase\<close>
  compares a message with such a quotation.
\<close>

definition lower_char :: "char \<Rightarrow> char" where
  "lower_char c =
     (case map_of (zip ''ABCDEFGHIJKLMNOPQRSTUVWXYZ'' ''abcdefghijklmnopqrstuvwxyz'') c of
        None \<Rightarrow> c
      | Some l \<Rightarrow> l)"

definition toLowerCase :: "string \<Rightarrow> string" where
  "toLowerCase s = map lower_char s"

section \<open>Image storage engine\<close>

record storage_config =
  storageDir :: string
  encryptionKey :: buffer
  compressionQuality :: nat
  maxFileSize :: nat

text \<open>
  The members of \<^verbatim>\<open>require('node:crypto')\<close> that the engine calls. A member the
  module does not have is \<open>None\<close>: calling it throws a \<^verbatim>\<open>TypeError\<close>. A cipher is
  the whole exchange with the cipher object (\<^verbatim>\<open>setAAD\<close>, \<^verbatim>\<open>update\<close>, \<^verbatim>\<open>final\<close>,
  \<^verbatim>\<open>getAuthTag\<close>): from algorithm, key, nonce, associated data and plaintext to
  ciphertext and tag, or \<open>None\<close> when one of the calls throws. A decipher takes
  the tag as well (\<^verbatim>\<open>setAuthTag\<close>) and is \<open>None\<close> when \<^verbatim>\<open>final\<close> throws because the
  tag does not verify.
\<close>

record crypto_module =
  createCipherGCM ::
    "(string \<Rightarrow> buffer \<Rightarrow> buffer \<Rightarrow> buffer \<Rightarrow> buffer \<Rightarrow> (buffer \<times> buffer) option) option"
  createDecipherGCM ::
    "(string \<Rightarrow> buffer \<Rightarrow> buffer \<Rightarrow> buffer \<Rightarrow> buffer \<Rightarrow> buffer \<Rightarrow> buffer option) option"
  sha256_hex :: "buffer \<Rightarrow> string"

text \<open>
  What one call takes from outside: the generated identifier, the random source,
  the image codec (\<^verbatim>\<open>sharp\<close>: decode, resize when larger than 1920 by 1080, encode as
  JPEG at the given quality; \<open>None\<close> when it throws), the ISO rendering of an
  instant, and the faults of the two file writes.
\<close>

record io_env =
  uuidv4 :: string
  rng :: "nat \<Rightarrow> byte"
  sharp_jpeg :: "nat \<Rightarrow> buffer \<Rightarrow> buffer option"
  toISOString :: "int \<Rightarrow> string"
  writeFile_fault :: "string \<Rightarrow> error option"
  writeJson_fault :: "string \<Rightarrow> error option"

text \<open>
  The storage directory: encrypted image files by path, and the JSON metadata
  files by path (a metadata file holds the record that was written to it).
\<close>

record storage =
  files :: "string \<Rightarrow> buffer option"
  metadataFiles :: "string \<Rightarrow> image_metadata option"

record image_data =
  rt_image :: buffer
  rt_metadata :: image_metadata

definition randomBytes :: "(nat \<Rightarrow> byte) \<Rightarrow> nat \<Rightarrow> buffer" where
  "randomBytes r n = map r [0..<n]"

definition utf8 :: "string \<Rightarrow> buffer" where
  "utf8 s = map (\<lambda>c. of_nat (of_char c)) s"

text \<open>
  \<^verbatim>\<open>path.join\<close> of three segments, on POSIX: the segments that are not empty are
  joined with a slash and the result is normalised. Normalisation drops empty and
  \<^verbatim>\<open>.\<close> segments, lets \<^verbatim>\<open>..\<close> remove the segment before it (above the start of a
  relative path it stays), and keeps a leading and a trailing slash.
\<close>

fun split_slash :: "string \<Rightarrow> string list" where
  "split_slash [] = [[]]"
| "split_slash (c # cs) =
     (if c = CHR ''/'' then [] # split_slash cs
      else (case split_slash cs of
              [] \<Rightarrow> [[c]]
            | seg # segs \<Rightarrow> (c # seg) # segs))"

fun join_slash :: "string list \<Rightarrow> string" where
  "join_slash [] = []"
| "join_slash [seg] = seg"
| "join_slash (seg # segs) = seg @ ''/'' @ join_slash segs"

text \<open>The segments kept so far are held last first.\<close>

fun normalize_segments :: "bool \<Rightarrow> string list \<Rightarrow> string list \<Rightarrow> string list" where
  "normalize_segments allowAboveRoot res [] = rev res"
| "normalize_segments allowAboveRoot res (seg # segs) =
     (if seg = [] \<or> seg = ''.'' then normalize_segments allowAboveRoot res segs
      else if seg = ''..'' then
        (case res of
           [] \<Rightarrow>
             normalize_segments allowAboveRoot (if allowAboveRoot then [''..''] else []) segs
         | l # rest \<Rightarrow>
             if l = ''..''
             then normalize_segments allowAboveRoot (if allowAboveRoot then ''..'' # res else res) segs
             else normalize_segments allowAboveRoot rest segs)
      else normalize_segments allowAboveRoot (seg # res) segs)"

definition path_normalize :: "string \<Rightarrow> string" where
  "path_normalize p =
     (case p of
        [] \<Rightarrow> ''.''
      | c # cs \<Rightarrow>
          let isAbsolute = (c = CHR ''/'');
              trailingSeparator = (last p = CHR ''/'');
              body = join_slash (normalize_segments (\<not> isAbsolute) [] (split_slash p))
          in if body = []
             then (if isAbsolute then ''/'' else if trailingSeparator then ''./'' else ''.'')
             else (if isAbsolute then ''/'' else []) @ body
                    @ (if trailingSeparator then ''/'' else []))"

definition path_join :: "string \<Rightarrow> string \<Rightarrow> string \<Rightarrow> string" where
  "path_join a b c =
     (let joined = join_slash (filter (\<lambda>seg. seg \<noteq> []) [a, b, c])
      in if joined = [] then ''.'' else path_normalize joined)"

fun decimal :: "nat \<Rightarrow> string" where
  "decimal n =
     (if n < 10 then [char_of (48 + n)]
      else decimal (n div 10) @ [char_of (48 + n mod 10)])"

definition processImage :: "io_env \<Rightarrow> storage_config \<Rightarrow> buffer \<Rightarrow> error + buffer" where
  "processImage env cfg imageBuffer =
     (case sharp_jpeg env (compressionQuality cfg) imageBuffer of
        None \<Rightarrow> Inl (Error ''Failed to process image'')
      | Some processed \<Rightarrow> Inr processed)"

definition encryptImage ::
  "crypto_module \<Rightarrow> storage_config \<Rightarrow> (nat \<Rightarrow> byte) \<Rightarrow> buffer \<Rightarrow> error + buffer" where
  "encryptImage C cfg r imageBuffer =
     (let algorithm = ''aes-256-gcm'';
          key = encryptionKey cfg;
          iv = randomBytes r 16
      in case createCipherGCM C of
           None \<Rightarrow> Inl (Error ''Failed to encrypt image'')
         | Some cipher \<Rightarrow>
             (case cipher algorithm key iv (utf8 ''seren-capture'') imageBuffer of
                None \<Rightarrow> Inl (Error ''Failed to encrypt image'')
              | Some (encrypted, authTag) \<Rightarrow> Inr (iv @ authTag @ encrypted)))"

definition decryptImage :: "crypto_module \<Rightarrow> storage_config \<Rightarrow> buffer \<Rightarrow> error + buffer" where
  "decryptImage C cfg encryptedBuffer =
     (let algorithm = ''aes-256-gcm'';
          key = encryptionKey cfg;
          iv = take 16 encryptedBuffer;
          authTag = take 16 (drop 16 encryptedBuffer);
          encrypted = drop 32 encryptedBuffer
      in case createDecipherGCM C of
           None \<Rightarrow> Inl (Error ''Failed to decrypt image'')
         | Some decipher \<Rightarrow>
             (case decipher algorithm key iv (utf8 ''seren-capture'') authTag encrypted of
                None \<Rightarrow> Inl (Error ''Failed to decrypt image'')
              | Some decrypted \<Rightarrow> Inr decrypted))"

definition saveMetadata ::
  "io_env \<Rightarrow> storage_config \<Rightarrow> storage \<Rightarrow> image_metadata \<Rightarrow> (error + unit) \<times> storage" where
  "saveMetadata env cfg st md =
     (let metadataPath = path_join (storageDir cfg) ''metadata'' (md_id md @ ''.json'')
      in case writeJson_fault env metadataPath of
           Some e \<Rightarrow> (Inl (Error ''Failed to save image metadata''), st)
         | None \<Rightarrow> (Inr (), st\<lparr>metadataFiles := (metadataFiles st)(metadataPath \<mapsto> md)\<rparr>))"

definition storeImage ::
  "crypto_module \<Rightarrow> io_env \<Rightarrow> storage_config \<Rightarrow> storage \<Rightarrow> buffer option \<Rightarrow> store_metadata
    \<Rightarrow> (error + storage_result) \<times> storage" where
  "storeImage C env cfg st imageBuffer md =
     (case imageBuffer of
        None \<Rightarrow> (Inl (Error ''Image buffer is empty''), st)
      | Some buf \<Rightarrow>
          if length buf = 0 then (Inl (Error ''Image buffer is empty''), st)
          else if length buf > maxFileSize cfg
          then (Inl (Error (''Image size exceeds maximum allowed size of ''
                  @ decimal (maxFileSize cfg) @ '' bytes'')), st)
          else
            let fid = uuidv4 env;
                timestampStr =
                  map (\<lambda>c. if c = CHR '':'' \<or> c = CHR ''.'' then CHR ''-'' else c)
                    (toISOString env (sm_timestamp md));
                fname = fid @ ''_'' @ timestampStr @ ''.jpg'';
                subDir = (if sm_captureType md = ''vehicle'' then ''vehicle'' else ''person'');
                fpath = path_join (storageDir cfg) subDir fname
            in (case processImage env cfg buf of
                  Inl e \<Rightarrow> (Inl e, st)
                | Inr processedImage \<Rightarrow>
                    (case encryptImage C cfg (rng env) processedImage of
                       Inl e \<Rightarrow> (Inl e, st)
                     | Inr encryptedImage \<Rightarrow>
                         (case writeFile_fault env fpath of
                            Some e \<Rightarrow> (Inl e, st)
                          | None \<Rightarrow>
                              let st1 = st\<lparr>files := (files st)(fpath \<mapsto> encryptedImage)\<rparr>;
                                  imageMetadata =
                                    \<lparr>md_id = fid, md_filename = fname, md_filePath = fpath,
                                     md_captureType = sm_captureType md,
                                     md_timestamp = sm_timestamp md,
                                     md_residentInfo =
                                       \<lparr>rs_id = resident_id (sm_residentInfo md),
                                        rs_name = resident_name (sm_residentInfo md),
                                        rs_unitNumber = unitNumber (sm_residentInfo md)\<rparr>,
                                     md_fileSize = length encryptedImage,
                                     originalSize = length buf,
                                     compressionRatio =
                                       (1 - real (length encryptedImage) / real (length buf)) * 100,
                                     checksum = sha256_hex C encryptedImage\<rparr>
                              in (case saveMetadata env cfg st1 imageMetadata of
                                    (Inl e, st2) \<Rightarrow> (Inl e, st2)
                                  | (Inr u, st2) \<Rightarrow>
                                      (Inr \<lparr>success = True, fileId = fid, sr_filename = fname,
                                            sr_filePath = fpath, metadata = imageMetadata\<rparr>,
                                       st2))))))"

definition retrieveImage ::
  "crypto_module \<Rightarrow> storage_config \<Rightarrow> storage \<Rightarrow> string \<Rightarrow> error + image_data" where
  "retrieveImage C cfg st imgId =
     (let metadataPath = path_join (storageDir cfg) ''metadata'' (imgId @ ''.json'')
      in case metadataFiles st metadataPath of
           None \<Rightarrow> Inl (Error ''Failed to retrieve image'')
         | Some md \<Rightarrow>
             (case files st (md_filePath md) of
                None \<Rightarrow> Inl (Error ''Failed to retrieve image'')
              | Some encryptedImage \<Rightarrow>
                  (case decryptImage C cfg encryptedImage of
                     Inl e \<Rightarrow> Inl (Error ''Failed to retrieve image'')
                   | Inr decryptedImage \<Rightarrow>
                       Inr \<lparr>rt_image = decryptedImage, rt_metadata = md\<rparr>)))"

text \<open>
  \<^verbatim>\<open>this.imageStorage.storeImage\<close> as the orchestrator's constructor wires it: the
  \<open>storeImage\<close> of the engine above, on the storage directory as it is when the
  call is made.
\<close>

definition imageStorage_storeImage ::
  "crypto_module \<Rightarrow> io_env \<Rightarrow> storage_config \<Rightarrow> storage \<Rightarrow> store_call" where
  "imageStorage_storeImage C env cfg st =
     (\<lambda>imageBuffer md. fst (storeImage C env cfg st imageBuffer md))"

section \<open>Concrete states\<close>

text \<open>
  A resident, a storage call that accepts every image (the shape of the result is the
  one the repository's tests use), one that rejects every image, and the states a
  session goes through: started at instant 1000, set to pedestrian mode, its person
  image captured, then set to vehicle mode.
\<close>

definition resident0 :: resident_info where
  "resident0 = \<lparr>resident_id = ''123'', resident_name = ''John Doe'', unitNumber = ''A101'',
                 phone = ''+1234567890'', email = ''john@example.com''\<rparr>"

definition store_ok :: store_call where
  "store_ok buf md =
     Inr \<lparr>success = True, fileId = ''img-123'', sr_filename = ''image.jpg'',
          sr_filePath = ''storage/images/person/image.jpg'',
          metadata = \<lparr>md_id = ''img-123'', md_filename = ''image.jpg'',
                      md_filePath = ''storage/images/person/image.jpg'',
                      md_captureType = sm_captureType md, md_timestamp = sm_timestamp md,
                      md_residentInfo =
                        \<lparr>rs_id = resident_id (sm_residentInfo md),
                         rs_name = resident_name (sm_residentInfo md),
                         rs_unitNumber = unitNumber (sm_residentInfo md)\<rparr>,
                      md_fileSize = 1024,
                      originalSize = 2048, compressionRatio = 50, checksum = ''abc123''\<rparr>\<rparr>"

definition store_fail :: store_call where
  "store_fail buf md = Inl (Error ''ENOSPC: no space left on device'')"

definition svc0 :: capture_service where
  "svc0 = \<lparr>activeSessions = []\<rparr>"

definition svc1 :: capture_service where
  "svc1 = run svc0 [Start (\<lambda>pin. Inr resident0) ''session_1'' 1000 (Some ''123456'')]"

definition svc2 :: capture_service where
  "svc2 = run svc1 [SetMode 2000 ''session_1'' ''pedestrian'']"

definition svc3 :: capture_service where
  "svc3 = run svc2 [Capture store_ok 3000 ''session_1'' ''person'' (Some [1, 2, 3])]"

definition svc4 :: capture_service where
  "svc4 = run svc3 [SetMode 4000 ''session_1'' ''vehicle'']"

definition session1 :: "string option \<Rightarrow> int option \<Rightarrow> session" where
  "session1 m u =
     \<lparr>session_id = ''session_1'', otp = ''123456'', residentInfo = resident0,
      status = ''active'', createdAt = 1000,
      captures = \<lparr>person = None, vehicle = None\<rparr>,
      mode = m, updatedAt = u, completedAt = None\<rparr>"

definition capture3 :: capture where
  "capture3 = \<lparr>imageId = ''img-123'', filename = ''image.jpg'', timestamp = 3000, fileSize = 1024\<rparr>"

definition session3 :: "string \<Rightarrow> int \<Rightarrow> session" where
  "session3 m u =
     \<lparr>session_id = ''session_1'', otp = ''123456'', residentInfo = resident0,
      status = ''completed'', createdAt = 1000,
      captures = \<lparr>person = Some capture3, vehicle = None\<rparr>,
      mode = Some m, updatedAt = Some u, completedAt = Some 3000\<rparr>"

definition svc_pair :: capture_service where
  "svc_pair = run svc3 [Start (\<lambda>pin. Inr resident0) ''session_2'' 3500 (Some ''123456'')]"

definition session2 :: session where
  "session2 =
     \<lparr>session_id = ''session_2'', otp = ''123456'', residentInfo = resident0,
      status = ''active'', createdAt = 3500,
      captures = \<lparr>person = None, vehicle = None\<rparr>,
      mode = None, updatedAt = None, completedAt = None\<rparr>"

section \<open>The cipher module and concrete storage states\<close>

text \<open>
  The module as Node.js ships it. For AES-GCM \<^verbatim>\<open>node:crypto\<close> offers
  \<^verbatim>\<open>createCipheriv(algorithm, key, iv)\<close> and \<^verbatim>\<open>createDecipheriv(algorithm, key, iv)\<close>;
  it has no member named \<^verbatim>\<open>createCipherGCM\<close> or \<^verbatim>\<open>createDecipherGCM\<close>, so both
  property reads give \<^verbatim>\<open>undefined\<close>. The hash function is left open.
\<close>

definition node_crypto :: "(buffer \<Rightarrow> string) \<Rightarrow> crypto_module" where
  "node_crypto sha = \<lparr>createCipherGCM = None, createDecipherGCM = None, sha256_hex = sha\<rparr>"

text \<open>
  A stand-in module that does have the two members, to run the engine on concrete
  bytes: the cipher adds one to every byte, the tag is sixteen copies of the byte
  sum of key, nonce, associated data and ciphertext, and the decipher rejects any
  other tag. With it: a configuration, the outside world of one call, the empty
  storage directory, the storage after one image is stored (the stored bytes and
  the metadata record are named), and that storage with the last byte of the
  stored file altered.
\<close>

definition demo_tag :: "buffer \<Rightarrow> buffer \<Rightarrow> buffer \<Rightarrow> buffer \<Rightarrow> buffer" where
  "demo_tag key iv aad ct = replicate 16 (sum_list (key @ iv @ aad @ ct))"

definition demo_crypto :: crypto_module where
  "demo_crypto =
     \<lparr>createCipherGCM =
        Some (\<lambda>algorithm key iv aad pt.
                let ct = map (\<lambda>b. b + 1) pt in Some (ct, demo_tag key iv aad ct)),
      createDecipherGCM =
        Some (\<lambda>algorithm key iv aad tag ct.
                if tag = demo_tag key iv aad ct then Some (map (\<lambda>b. b - 1) ct) else None),
      sha256_hex = (\<lambda>b. ''digest'')\<rparr>"

definition cfg0 :: storage_config where
  "cfg0 = \<lparr>storageDir = ''./storage/images'', encryptionKey = replicate 32 7,
           compressionQuality = 80, maxFileSize = 5242880\<rparr>"

definition env0 :: io_env where
  "env0 = \<lparr>uuidv4 = ''id-1'', rng = (\<lambda>i. 5), sharp_jpeg = (\<lambda>quality b. Some (take 2 b)),
           toISOString = (\<lambda>t. ''1970-01-01T00:00:03.000Z''),
           writeFile_fault = (\<lambda>p. None), writeJson_fault = (\<lambda>p. None)\<rparr>"

definition st0 :: storage where
  "st0 = \<lparr>files = (\<lambda>p. None), metadataFiles = (\<lambda>p. None)\<rparr>"

definition md0 :: store_metadata where
  "md0 = \<lparr>sm_residentInfo = resident0, sm_captureType = ''person'', sm_timestamp = 3000,
           sm_sessionId = ''session_1'', sm_otp = ''123456''\<rparr>"

definition snapshot0 :: resident_snapshot where
  "snapshot0 = \<lparr>rs_id = ''123'', rs_name = ''John Doe'', rs_unitNumber = ''A101''\<rparr>"

definition st1 :: storage where
  "st1 = snd (storeImage demo_crypto env0 cfg0 st0 (Some [10, 20, 30, 40]) md0)"

definition enc1 :: buffer where
  "enc1 = replicate 16 5 @ replicate 16 142 @ [11, 21]"

definition metadata1 :: image_metadata where
  "metadata1 =
     \<lparr>md_id = ''id-1'', md_filename = ''id-1_1970-01-01T00-00-03-000Z.jpg'',
      md_filePath = ''storage/images/person/id-1_1970-01-01T00-00-03-000Z.jpg'',
      md_captureType = ''person'', md_timestamp = 3000,
      md_residentInfo = snapshot0, md_fileSize = 34,
      originalSize = length [10, 20, 30, 40 :: byte],
      compressionRatio = - 750, checksum = ''digest''\<rparr>"

definition path1 :: string where
  "path1 = ''storage/images/person/id-1_1970-01-01T00-00-03-000Z.jpg''"

definition tamper :: "buffer \<Rightarrow> buffer" where
  "tamper b = butlast b @ [last b + 1]"

definition st1_tampered :: storage where
  "st1_tampered = st1\<lparr>files := (files st1)(path1 := map_option tamper (files st1 path1))\<rparr>"

text \<open>
  One byte of a stored file is altered: the two buffers have the same length and
  differ at exactly one index.
\<close>

definition single_byte_altered :: "buffer \<Rightarrow> buffer \<Rightarrow> bool" where
  "single_byte_altered enc enc' = (\<exists>i b. i < length enc \<and> b \<noteq> enc ! i \<and> enc' = enc[i := b])"

section \<open>The session map\<close>

lemma Map_get_Map_set: "Map_get (Map_set k v m) k' = (if k' = k then Some v else Map_get m k')"
  by (induction m) (auto simp: Map_get_def)

lemma Map_get_Map_delete: "Map_get (Map_delete k m) k' = (if k' = k then None else Map_get m k')"
  by (induction m) (auto simp: Map_get_def Map_delete_def)

lemmas orch_defs = processCapture_def getSession_def Let_def isSessionComplete_def
  getAvailableCaptures_def getNextAction_def captures_set_def captures_get_def

section \<open>The concrete states, evaluated\<close>

lemma trim_pin: "trim ''123456'' = ''123456''"
  by (simp add: trim_def is_space_def)

lemma svc1_eq: "svc1 = \<lparr>activeSessions = [(''session_1'', session1 None None)]\<rparr>"
  by (simp add: svc1_def run_def startCaptureSession_def trim_pin svc0_def session1_def)

lemma svc2_eq:
  "svc2 = \<lparr>activeSessions = [(''session_1'', session1 (Some ''pedestrian'') (Some 2000))]\<rparr>"
  by (simp add: svc2_def svc1_eq run_def setCaptureMode_def getSession_def Map_get_def session1_def)

lemma svc3_eq: "svc3 = \<lparr>activeSessions = [(''session_1'', session3 ''pedestrian'' 3000)]\<rparr>"
  by (simp add: svc3_def svc2_eq run_def orch_defs Map_get_def
      session1_def session3_def capture3_def store_ok_def)

lemma svc4_eq: "svc4 = \<lparr>activeSessions = [(''session_1'', session3 ''vehicle'' 4000)]\<rparr>"
  by (simp add: svc4_def svc3_eq run_def setCaptureMode_def getSession_def Map_get_def session3_def)

lemma live_svc1: "Map_get (activeSessions svc1) ''session_1'' = Some (session1 None None)"
  by (simp add: svc1_eq Map_get_def)

lemma live_svc2:
  "Map_get (activeSessions svc2) ''session_1'' = Some (session1 (Some ''pedestrian'') (Some 2000))"
  by (simp add: svc2_eq Map_get_def)

lemma live_svc3: "Map_get (activeSessions svc3) ''session_1'' = Some (session3 ''pedestrian'' 3000)"
  by (simp add: svc3_eq Map_get_def)

lemma svc_pair_eq:
  "svc_pair = \<lparr>activeSessions = [(''session_1'', session3 ''pedestrian'' 3000),
                                 (''session_2'', session2)]\<rparr>"
  by (simp add: svc_pair_def svc3_eq run_def startCaptureSession_def trim_pin session2_def)

section \<open>Completion of a session by \<^verbatim>\<open>processCapture\<close>\<close>

text \<open>
  C1, as the code has it. Take a live session whose mode is \<open>m\<close>, pedestrian or
  vehicle, and a \<^verbatim>\<open>processCapture\<close> on it that succeeds. The session stays live
  with the same mode. The returned \<^verbatim>\<open>sessionComplete\<close> flag is true exactly when
  every capture type required by \<open>m\<close> (person; and vehicle too in vehicle mode) has a
  descriptor. The status after the call is \<^verbatim>\<open>completed\<close> exactly when that holds or
  the status was \<^verbatim>\<open>completed\<close> already before the call: a call never resets the
  status. When complete, \<^verbatim>\<open>nextAction\<close> is \<^verbatim>\<open>complete_session\<close>; otherwise it is
  \<^verbatim>\<open>capture_\<close> followed by the first required type, in mode order, that is still
  missing.
\<close>

theorem processCapture_completion:
  assumes live: "Map_get (activeSessions svc) sessionId = Some s"
      and m: "mode s = Some m" "m = ''pedestrian'' \<or> m = ''vehicle''"
      and ok: "processCapture storeImage_call now svc sessionId captureType imageBuffer
                 = (Inr res, svc')"
  shows "\<exists>s'. Map_get (activeSessions svc') sessionId = Some s'
           \<and> mode s' = Some m
           \<and> (sessionComplete res \<longleftrightarrow>
                person (captures s') \<noteq> None
                \<and> (m = ''vehicle'' \<longrightarrow> vehicle (captures s') \<noteq> None))
           \<and> (status s' = ''completed'' \<longleftrightarrow> sessionComplete res \<or> status s = ''completed'')
           \<and> (sessionComplete res \<longrightarrow> nextAction res = ''complete_session'')
           \<and> (\<not> sessionComplete res \<longrightarrow>
                nextAction res
                  = ''capture_'' @ (if person (captures s') = None then ''person'' else ''vehicle''))"
proof -
  from ok live have ct: "captureType = ''person'' \<or> captureType = ''vehicle''"
    by (auto simp add: processCapture_def getSession_def split: if_splits)
  from ok live m have nv: "\<not> (m = ''pedestrian'' \<and> captureType = ''vehicle'')"
    by (auto simp add: processCapture_def getSession_def split: if_splits)
  from ok live ct nv m obtain r where
    r: "storeImage_call imageBuffer
          \<lparr>sm_residentInfo = residentInfo s, sm_captureType = captureType,
           sm_timestamp = now, sm_sessionId = sessionId, sm_otp = otp s\<rparr> = Inr r"
    by (cases "storeImage_call imageBuffer
          \<lparr>sm_residentInfo = residentInfo s, sm_captureType = captureType,
           sm_timestamp = now, sm_sessionId = sessionId, sm_otp = otp s\<rparr>")
       (auto simp add: processCapture_def getSession_def Let_def)
  show ?thesis
    using m(2)
  proof
    assume p: "m = ''pedestrian''"
    with nv ct have "captureType = ''person''" by auto
    with ok live m(1) p r show ?thesis
      by (auto simp add: orch_defs Map_get_Map_set)
  next
    assume v: "m = ''vehicle''"
    from ct show ?thesis
    proof
      assume "captureType = ''person''"
      with ok live m(1) v r show ?thesis
        by (cases "vehicle (captures s)") (auto simp add: orch_defs Map_get_Map_set)
    next
      assume "captureType = ''vehicle''"
      with ok live m(1) v r show ?thesis
        by (cases "person (captures s)") (auto simp add: orch_defs Map_get_Map_set)
    qed
  qed
qed

text \<open>
  The theorem at the pedestrian session of the concrete states: its person capture
  succeeds and completes it.
\<close>

theorem processCapture_completion_witness:
  "Map_get (activeSessions svc2) ''session_1'' = Some (session1 (Some ''pedestrian'') (Some 2000))
   \<and> processCapture store_ok 3000 svc2 ''session_1'' ''person'' (Some [1, 2, 3])
        = (Inr \<lparr>cr_success = True, cr_captureType = ''person'', cr_imageId = ''img-123'',
                sessionComplete = True, nextAction = ''complete_session''\<rparr>, svc3)
   \<and> (\<exists>s'. Map_get (activeSessions svc3) ''session_1'' = Some s'
           \<and> status s' = ''completed'' \<and> person (captures s') \<noteq> None)"
proof -
  have ok: "processCapture store_ok 3000 svc2 ''session_1'' ''person'' (Some [1, 2, 3])
        = (Inr \<lparr>cr_success = True, cr_captureType = ''person'', cr_imageId = ''img-123'',
                sessionComplete = True, nextAction = ''complete_session''\<rparr>, svc3)"
    by (simp add: svc3_eq svc2_eq orch_defs Map_get_def session1_def session3_def capture3_def
          store_ok_def)
  have md: "mode (session1 (Some ''pedestrian'') (Some 2000)) = Some ''pedestrian''"
    by (simp add: session1_def)
  from processCapture_completion [OF live_svc2 md _ ok] live_svc2 ok show ?thesis
    by auto
qed

text \<open>
  C1 as the specification states it fails. A session is started, set to pedestrian
  mode and completed by its person capture; \<^verbatim>\<open>setCaptureMode\<close> then sets it to
  vehicle mode, and a further person capture succeeds. After that call the status is
  \<^verbatim>\<open>completed\<close> although the vehicle descriptor, required by vehicle mode, is absent
  (the call itself reports \<^verbatim>\<open>sessionComplete = false\<close> and \<^verbatim>\<open>capture_vehicle\<close>).
\<close>

theorem processCapture_completion_counterexample:
  "svc4 = run svc0 [Start (\<lambda>pin. Inr resident0) ''session_1'' 1000 (Some ''123456''),
                    SetMode 2000 ''session_1'' ''pedestrian'',
                    Capture store_ok 3000 ''session_1'' ''person'' (Some [1, 2, 3]),
                    SetMode 4000 ''session_1'' ''vehicle'']
   \<and> fst (processCapture store_ok 5000 svc4 ''session_1'' ''person'' (Some [4, 5, 6]))
        = Inr \<lparr>cr_success = True, cr_captureType = ''person'', cr_imageId = ''img-123'',
               sessionComplete = False, nextAction = ''capture_vehicle''\<rparr>
   \<and> map_option (\<lambda>s. (mode s, status s, vehicle (captures s)))
        (Map_get (activeSessions (snd (processCapture store_ok 5000 svc4 ''session_1'' ''person''
           (Some [4, 5, 6])))) ''session_1'')
        = Some (Some ''vehicle'', ''completed'', None)"
proof -
  have "svc4 = run svc0 [Start (\<lambda>pin. Inr resident0) ''session_1'' 1000 (Some ''123456''),
                    SetMode 2000 ''session_1'' ''pedestrian'',
                    Capture store_ok 3000 ''session_1'' ''person'' (Some [1, 2, 3]),
                    SetMode 4000 ''session_1'' ''vehicle'']"
    by (simp add: svc4_def svc3_def svc2_def svc1_def run_def)
  moreover have "fst (processCapture store_ok 5000 svc4 ''session_1'' ''person'' (Some [4, 5, 6]))
        = Inr \<lparr>cr_success = True, cr_captureType = ''person'', cr_imageId = ''img-123'',
               sessionComplete = False, nextAction = ''capture_vehicle''\<rparr>"
    by (simp add: svc4_eq orch_defs Map_get_def session3_def capture3_def store_ok_def)
  moreover have "map_option (\<lambda>s. (mode s, status s, vehicle (captures s)))
        (Map_get (activeSessions (snd (processCapture store_ok 5000 svc4 ''session_1'' ''person''
           (Some [4, 5, 6])))) ''session_1'')
        = Some (Some ''vehicle'', ''completed'', None)"
    by (simp add: svc4_eq orch_defs Map_get_def session3_def capture3_def store_ok_def)
  ultimately show ?thesis by simp
qed

section \<open>Failure of the storage call\<close>

text \<open>
  C2. When \<^verbatim>\<open>processCapture\<close> reaches the storage call (the session is live, the
  capture type is one of the two, the mode check passes) and the storage call fails
  with an error \<open>e\<close>, then \<^verbatim>\<open>processCapture\<close> fails with that same \<open>e\<close> and the whole
  service state is the state before the call; in particular the session is the same
  record: captures, status, \<^verbatim>\<open>updatedAt\<close> and \<^verbatim>\<open>completedAt\<close> are untouched.
\<close>

theorem processCapture_storage_failure:
  assumes live: "Map_get (activeSessions svc) sessionId = Some s"
      and ctype: "captureType = ''person'' \<or> captureType = ''vehicle''"
      and allowed: "\<not> (mode s = Some ''pedestrian'' \<and> captureType = ''vehicle'')"
      and fails: "storeImage_call imageBuffer
                     \<lparr>sm_residentInfo = residentInfo s, sm_captureType = captureType,
                      sm_timestamp = now, sm_sessionId = sessionId, sm_otp = otp s\<rparr> = Inl e"
  shows "processCapture storeImage_call now svc sessionId captureType imageBuffer = (Inl e, svc)
         \<and> Map_get (activeSessions (snd (processCapture storeImage_call now svc sessionId
                captureType imageBuffer))) sessionId = Some s"
  using assms by (auto simp add: processCapture_def getSession_def)

theorem processCapture_storage_failure_witness:
  "Map_get (activeSessions svc2) ''session_1'' = Some (session1 (Some ''pedestrian'') (Some 2000))
   \<and> processCapture store_fail 3000 svc2 ''session_1'' ''person'' (Some [1, 2, 3])
       = (Inl (Error ''ENOSPC: no space left on device''), svc2)"
  using processCapture_storage_failure
          [of svc2 "''session_1''" "session1 (Some ''pedestrian'') (Some 2000)" "''person''"
              store_fail "Some [1, 2, 3]" 3000 "Error ''ENOSPC: no space left on device''"]
  by (simp add: svc2_eq Map_get_def store_fail_def session1_def)

section \<open>The mode check\<close>

text \<open>
  The mode check by itself, for any storage call. For a live session: in pedestrian
  mode a vehicle capture always fails, whatever the image and the storage, with the
  message \<^verbatim>\<open>Vehicle capture not allowed in pedestrian mode\<close> (the specification
  quotes it in lower case) and leaves the state alone; a person capture in
  pedestrian mode gets past the check and succeeds when the storage call does; and
  for every mode, unset included, and each of the two capture types other than
  vehicle in pedestrian mode, the call is not rejected by the orchestrator: it
  fails only with the storage call's own error.
\<close>

lemma processCapture_mode_check:
  assumes live: "Map_get (activeSessions svc) sessionId = Some s"
  shows "(mode s = Some ''pedestrian'' \<longrightarrow>
            (\<exists>msg. processCapture storeImage_call now svc sessionId ''vehicle'' imageBuffer
                     = (Inl (Error msg), svc)
                  \<and> msg = ''Vehicle capture not allowed in pedestrian mode''
                  \<and> toLowerCase msg = ''vehicle capture not allowed in pedestrian mode''))
       \<and> (mode s = Some ''pedestrian'' \<longrightarrow>
            (\<forall>r. storeImage_call imageBuffer
                     \<lparr>sm_residentInfo = residentInfo s, sm_captureType = ''person'',
                      sm_timestamp = now, sm_sessionId = sessionId, sm_otp = otp s\<rparr> = Inr r
               \<longrightarrow> (\<exists>res svc'. processCapture storeImage_call now svc sessionId ''person'' imageBuffer
                       = (Inr res, svc') \<and> cr_success res \<and> cr_imageId res = fileId r)))
       \<and> ((captureType = ''person'' \<or> captureType = ''vehicle'')
            \<and> \<not> (mode s = Some ''pedestrian'' \<and> captureType = ''vehicle'') \<longrightarrow>
            (case storeImage_call imageBuffer
                     \<lparr>sm_residentInfo = residentInfo s, sm_captureType = captureType,
                      sm_timestamp = now, sm_sessionId = sessionId, sm_otp = otp s\<rparr> of
               Inl e \<Rightarrow> fst (processCapture storeImage_call now svc sessionId captureType imageBuffer)
                          = Inl e
             | Inr r \<Rightarrow> (\<exists>res. fst (processCapture storeImage_call now svc sessionId captureType
                          imageBuffer) = Inr res \<and> cr_success res)))"
proof (intro conjI impI)
  assume ped: "mode s = Some ''pedestrian''"
  have "toLowerCase ''Vehicle capture not allowed in pedestrian mode''
          = ''vehicle capture not allowed in pedestrian mode''"
    by (simp add: toLowerCase_def lower_char_def)
  with live ped
  show "\<exists>msg. processCapture storeImage_call now svc sessionId ''vehicle'' imageBuffer
                     = (Inl (Error msg), svc)
                  \<and> msg = ''Vehicle capture not allowed in pedestrian mode''
                  \<and> toLowerCase msg = ''vehicle capture not allowed in pedestrian mode''"
    by (simp add: processCapture_def getSession_def)
next
  assume ped: "mode s = Some ''pedestrian''"
  with live show "\<forall>r. storeImage_call imageBuffer
                     \<lparr>sm_residentInfo = residentInfo s, sm_captureType = ''person'',
                      sm_timestamp = now, sm_sessionId = sessionId, sm_otp = otp s\<rparr> = Inr r
               \<longrightarrow> (\<exists>res svc'. processCapture storeImage_call now svc sessionId ''person'' imageBuffer
                       = (Inr res, svc') \<and> cr_success res \<and> cr_imageId res = fileId r)"
    by (simp add: processCapture_def getSession_def Let_def)
next
  assume ok: "(captureType = ''person'' \<or> captureType = ''vehicle'')
            \<and> \<not> (mode s = Some ''pedestrian'' \<and> captureType = ''vehicle'')"
  with live show "case storeImage_call imageBuffer
                     \<lparr>sm_residentInfo = residentInfo s, sm_captureType = captureType,
                      sm_timestamp = now, sm_sessionId = sessionId, sm_otp = otp s\<rparr> of
               Inl e \<Rightarrow> fst (processCapture storeImage_call now svc sessionId captureType imageBuffer)
                          = Inl e
             | Inr r \<Rightarrow> (\<exists>res. fst (processCapture storeImage_call now svc sessionId captureType
                          imageBuffer) = Inr res \<and> cr_success res)"
    by (auto simp add: processCapture_def getSession_def Let_def split: sum.splits)
qed

lemma processCapture_mode_check_example:
  "Map_get (activeSessions svc2) ''session_1'' = Some (session1 (Some ''pedestrian'') (Some 2000))
   \<and> mode (session1 (Some ''pedestrian'') (Some 2000)) = Some ''pedestrian''
   \<and> processCapture store_ok 3000 svc2 ''session_1'' ''vehicle'' (Some [1, 2, 3])
        = (Inl (Error ''Vehicle capture not allowed in pedestrian mode''), svc2)
   \<and> (\<exists>res svc'. processCapture store_ok 3000 svc2 ''session_1'' ''person'' (Some [1, 2, 3])
                     = (Inr res, svc') \<and> cr_success res)"
proof -
  have md: "mode (session1 (Some ''pedestrian'') (Some 2000)) = Some ''pedestrian''"
    by (simp add: session1_def)
  from processCapture_mode_check [OF live_svc2, of store_ok 3000 "Some [1, 2, 3]" "''person''"]
       live_svc2 md
  show ?thesis
    by (auto simp add: store_ok_def)
qed

section \<open>Completing a session\<close>

text \<open>
  C4. On a live session whose status is not \<^verbatim>\<open>completed\<close>, \<^verbatim>\<open>completeSession\<close>
  fails with \<^verbatim>\<open>Session is not ready for completion\<close> (quoted in lower case by the
  specification) and the session stays in the live mapping. On a session whose
  status is \<^verbatim>\<open>completed\<close> it returns a summary whose \<^verbatim>\<open>totalCaptures\<close> is the number
  of descriptors that are not absent and removes the session, so that a second
  \<^verbatim>\<open>completeSession\<close> and \<^verbatim>\<open>getSession\<close> with the same identifier fail with
  \<^verbatim>\<open>Session not found\<close>.
\<close>

theorem completeSession_status_check:
  assumes live: "Map_get (activeSessions svc) sessionId = Some s"
  shows "(status s \<noteq> ''completed'' \<longrightarrow>
            (\<exists>msg. completeSession svc sessionId = (Inl (Error msg), svc)
                  \<and> msg = ''Session is not ready for completion''
                  \<and> toLowerCase msg = ''session is not ready for completion'')
            \<and> Map_get (activeSessions (snd (completeSession svc sessionId))) sessionId = Some s)
       \<and> (status s = ''completed'' \<longrightarrow>
            (\<exists>sm svc'. completeSession svc sessionId = (Inr sm, svc')
               \<and> totalCaptures sm
                    = (if person (captures s) = None then 0 else 1)
                      + (if vehicle (captures s) = None then 0 else 1)
               \<and> Map_get (activeSessions svc') sessionId = None
               \<and> completeSession svc' sessionId
                    = (Inl (Error (''Session not found: '' @ sessionId)), svc')
               \<and> getSession svc' sessionId = Inl (Error (''Session not found: '' @ sessionId))))"
proof (intro conjI impI)
  assume "status s \<noteq> ''completed''"
  moreover have "toLowerCase ''Session is not ready for completion''
          = ''session is not ready for completion''"
    by (simp add: toLowerCase_def lower_char_def)
  ultimately show "\<exists>msg. completeSession svc sessionId = (Inl (Error msg), svc)
                  \<and> msg = ''Session is not ready for completion''
                  \<and> toLowerCase msg = ''session is not ready for completion''"
    using live by (simp add: completeSession_def getSession_def)
next
  assume "status s \<noteq> ''completed''"
  with live show "Map_get (activeSessions (snd (completeSession svc sessionId))) sessionId = Some s"
    by (simp add: completeSession_def getSession_def)
next
  assume "status s = ''completed''"
  with live show "\<exists>sm svc'. completeSession svc sessionId = (Inr sm, svc')
               \<and> totalCaptures sm
                    = (if person (captures s) = None then 0 else 1)
                      + (if vehicle (captures s) = None then 0 else 1)
               \<and> Map_get (activeSessions svc') sessionId = None
               \<and> completeSession svc' sessionId
                    = (Inl (Error (''Session not found: '' @ sessionId)), svc')
               \<and> getSession svc' sessionId = Inl (Error (''Session not found: '' @ sessionId))"
    by (simp add: completeSession_def getSession_def Map_get_Map_delete)
qed

theorem completeSession_status_check_witness:
  "Map_get (activeSessions svc2) ''session_1'' = Some (session1 (Some ''pedestrian'') (Some 2000))
   \<and> completeSession svc2 ''session_1'' = (Inl (Error ''Session is not ready for completion''), svc2)
   \<and> Map_get (activeSessions svc3) ''session_1'' = Some (session3 ''pedestrian'' 3000)
   \<and> (\<exists>sm svc'. completeSession svc3 ''session_1'' = (Inr sm, svc')
          \<and> totalCaptures sm = 1
          \<and> completeSession svc' ''session_1'' = (Inl (Error ''Session not found: session_1''), svc'))"
proof -
  have st2: "status (session1 (Some ''pedestrian'') (Some 2000)) \<noteq> ''completed''"
    by (simp add: session1_def)
  have st3: "status (session3 ''pedestrian'' 3000) = ''completed''
             \<and> person (captures (session3 ''pedestrian'' 3000)) \<noteq> None
             \<and> vehicle (captures (session3 ''pedestrian'' 3000)) = None"
    by (simp add: session3_def)
  from completeSession_status_check [OF live_svc2] completeSession_status_check [OF live_svc3]
       live_svc2 live_svc3 st2 st3
  show ?thesis
    by auto
qed

section \<open>A capture before any mode is set\<close>

text \<open>
  The orchestrator by itself, for any storage call. On a live session whose mode
  was never set, a person capture for which the storage call succeeds is accepted:
  the descriptor is recorded and, the list of required capture types of an unset
  mode being empty, the session is marked \<^verbatim>\<open>completed\<close> at once with
  \<^verbatim>\<open>completedAt\<close> stamped; the call returns \<^verbatim>\<open>sessionComplete = true\<close> and
  \<^verbatim>\<open>nextAction = complete_session\<close>.
\<close>

lemma processCapture_unset_mode:
  assumes live: "Map_get (activeSessions svc) sessionId = Some s"
      and unset: "mode s = None"
      and stored: "storeImage_call imageBuffer
                     \<lparr>sm_residentInfo = residentInfo s, sm_captureType = ''person'',
                      sm_timestamp = now, sm_sessionId = sessionId, sm_otp = otp s\<rparr> = Inr r"
  shows "\<exists>res svc' s'.
           processCapture storeImage_call now svc sessionId ''person'' imageBuffer = (Inr res, svc')
         \<and> Map_get (activeSessions svc') sessionId = Some s'
         \<and> person (captures s') \<noteq> None
         \<and> status s' = ''completed''
         \<and> completedAt s' = Some now
         \<and> sessionComplete res
         \<and> nextAction res = ''complete_session''"
  using assms
  by (simp add: orch_defs Map_get_Map_set)

lemma processCapture_unset_mode_example:
  "Map_get (activeSessions svc1) ''session_1'' = Some (session1 None None)
   \<and> mode (session1 None None) = None
   \<and> (\<exists>res svc' s'.
           processCapture store_ok 2000 svc1 ''session_1'' ''person'' (Some [1, 2, 3]) = (Inr res, svc')
         \<and> Map_get (activeSessions svc') ''session_1'' = Some s'
         \<and> status s' = ''completed''
         \<and> completedAt s' = Some 2000
         \<and> sessionComplete res
         \<and> nextAction res = ''complete_session'')"
proof -
  have md: "mode (session1 None None) = None"
    by (simp add: session1_def)
  from processCapture_unset_mode [OF live_svc1 md, of store_ok "Some [1, 2, 3]" 2000] live_svc1 md
  show ?thesis
    by (auto simp add: store_ok_def)
qed

section \<open>The expiry sweep\<close>

lemma keys_Map_set:
  "map fst (Map_set k v m) = (if k \<in> fst ` set m then map fst m else map fst m @ [k])"
  by (induction m) (auto simp: rev_image_eqI)

lemma distinct_Map_set: "distinct (map fst m) \<Longrightarrow> distinct (map fst (Map_set k v m))"
  by (simp add: keys_Map_set)

lemma distinct_Map_delete: "distinct (map fst m) \<Longrightarrow> distinct (map fst (Map_delete k m))"
  by (simp add: Map_delete_def distinct_map_filter)

lemma foldl_Map_delete:
  "foldl (\<lambda>m k. Map_delete k m) m ks = filter (\<lambda>e. fst e \<notin> set ks) m"
proof (induction ks arbitrary: m)
  case Nil
  then show ?case by simp
next
  case (Cons k ks)
  have "filter (\<lambda>e. fst e \<notin> set ks) (Map_delete k m) = filter (\<lambda>e. fst e \<notin> set (k # ks)) m"
    by (auto simp: Map_delete_def intro: filter_cong)
  with Cons show ?case by simp
qed

lemma sweep_filter:
  assumes "distinct (map fst m)"
  shows "filter (\<lambda>e. fst e \<notin> set (map fst (filter P m))) m = filter (\<lambda>e. \<not> P e) m"
proof (rule filter_cong [OF refl])
  fix e assume e: "e \<in> set m"
  show "(fst e \<notin> set (map fst (filter P m))) = (\<not> P e)"
  proof
    assume "fst e \<notin> set (map fst (filter P m))"
    with e show "\<not> P e" by force
  next
    assume np: "\<not> P e"
    show "fst e \<notin> set (map fst (filter P m))"
    proof
      assume "fst e \<in> set (map fst (filter P m))"
      then obtain e' where e': "e' \<in> set m" "P e'" "fst e' = fst e" by auto
      with assms e have "e' = e"
        by (metis eq_key_imp_eq_value prod.collapse)
      with e' np show False by simp
    qed
  qed
qed

lemma Map_get_filter:
  assumes "distinct (map fst m)"
  shows "Map_get (filter Q m) k =
           (case Map_get m k of None \<Rightarrow> None | Some v \<Rightarrow> if Q (k, v) then Some v else None)"
  using assms
proof (induction m)
  case Nil
  then show ?case by (simp add: Map_get_def)
next
  case (Cons e m)
  obtain k' v' where e: "e = (k', v')" by (cases e)
  show ?case
  proof (cases "k' = k")
    case True
    with Cons.prems e have "map_of m k = None"
      by (simp add: map_of_eq_None_iff)
    then have "map_of (filter Q m) k = None"
      by (auto simp: map_of_eq_None_iff)
    with True e show ?thesis
      by (simp add: Map_get_def)
  next
    case False
    with Cons e show ?thesis
      by (simp add: Map_get_def)
  qed
qed

lemma cleanup_survivors:
  assumes "wf_service svc"
  shows "activeSessions (snd (cleanupExpiredSessions maxAge now svc))
           = filter (\<lambda>(sessionId, s). \<not> now - createdAt s > maxAge) (activeSessions svc)"
proof -
  let ?old = "\<lambda>(sessionId :: string, s). now - createdAt s > maxAge"
  from assms have d: "distinct (map fst (activeSessions svc))"
    by (simp add: wf_service_def)
  have "activeSessions (snd (cleanupExpiredSessions maxAge now svc))
          = foldl (\<lambda>m sessionId. Map_delete sessionId m) (activeSessions svc)
              (map fst (filter ?old (activeSessions svc)))"
    by (simp add: cleanupExpiredSessions_def Let_def)
  also have "\<dots> = filter (\<lambda>e. fst e \<notin> set (map fst (filter ?old (activeSessions svc))))
                      (activeSessions svc)"
    by (rule foldl_Map_delete)
  also have "\<dots> = filter (\<lambda>e. \<not> ?old e) (activeSessions svc)"
    by (rule sweep_filter [OF d])
  also have "\<dots> = filter (\<lambda>(sessionId, s). \<not> now - createdAt s > maxAge) (activeSessions svc)"
    by (rule filter_cong) auto
  finally show ?thesis .
qed

text \<open>Every operation keeps the keys of the session map distinct.\<close>

lemma wf_step: "wf_service svc \<Longrightarrow> wf_service (step svc a)"
proof (cases a)
  case (Cleanup maxAge now)
  then show "wf_service svc \<Longrightarrow> wf_service (step svc a)"
    by (simp add: wf_service_def cleanupExpiredSessions_def Let_def foldl_Map_delete
          distinct_map_filter del: set_map)
qed (auto simp: wf_service_def startCaptureSession_def setCaptureMode_def processCapture_def
       completeSession_def getSession_def Let_def distinct_Map_set distinct_Map_delete
       split: option.splits sum.splits)

lemma wf_run: "wf_service svc \<Longrightarrow> wf_service (run svc ops)"
  unfolding run_def by (induction ops arbitrary: svc) (simp_all add: wf_step)

lemma wf_svc0: "wf_service svc0"
  by (simp add: wf_service_def svc0_def)

text \<open>
  C7, as the code has it. On a session map without duplicate keys, a session is
  removed by \<^verbatim>\<open>cleanupExpiredSessions(maxAge)\<close> exactly when its age, the instant of
  the sweep minus \<^verbatim>\<open>createdAt\<close>, is greater than \<open>maxAge\<close>, whatever its status, and
  every other session is kept as it is. The returned number is the number of
  sessions removed, and the count afterwards is the number of sessions whose age is
  at most \<open>maxAge\<close>. With \<open>maxAge = 0\<close> the sweep removes the sessions created before
  the instant of the sweep: when every live session is, the count afterwards is zero
  and the returned number is the count before.
\<close>

theorem cleanupExpiredSessions_sweep:
  assumes wf: "wf_service svc"
      and sweep: "cleanupExpiredSessions maxAge now svc = (n, svc')"
  shows "(\<forall>sessionId s. Map_get (activeSessions svc) sessionId = Some s \<longrightarrow>
            (Map_get (activeSessions svc') sessionId = None \<longleftrightarrow> now - createdAt s > maxAge)
          \<and> (\<not> now - createdAt s > maxAge \<longrightarrow> Map_get (activeSessions svc') sessionId = Some s))
       \<and> n + getActiveSessionsCount svc' = getActiveSessionsCount svc
       \<and> getActiveSessionsCount svc'
           = length (filter (\<lambda>(sessionId, s). now - createdAt s \<le> maxAge) (activeSessions svc))
       \<and> (maxAge = 0 \<and> (\<forall>(sessionId, s) \<in> set (activeSessions svc). createdAt s < now) \<longrightarrow>
            getActiveSessionsCount svc' = 0 \<and> n = getActiveSessionsCount svc)"
proof -
  let ?old = "\<lambda>(sessionId :: string, s). now - createdAt s > maxAge"
  let ?keep = "\<lambda>(sessionId :: string, s). \<not> now - createdAt s > maxAge"
  from sweep have svc': "svc' = snd (cleanupExpiredSessions maxAge now svc)" by simp
  from sweep have n: "n = length (filter ?old (activeSessions svc))"
    by (auto simp: cleanupExpiredSessions_def Let_def)
  have surv: "activeSessions svc' = filter ?keep (activeSessions svc)"
    unfolding svc' by (rule cleanup_survivors [OF wf])
  have keep_le: "filter ?keep (activeSessions svc)
          = filter (\<lambda>(sessionId, s). now - createdAt s \<le> maxAge) (activeSessions svc)"
    by (rule filter_cong) auto
  have part: "length (filter ?old (activeSessions svc)) + length (filter ?keep (activeSessions svc))
          = length (activeSessions svc)"
    using sum_length_filter_compl [of ?old "activeSessions svc"]
    by (simp add: case_prod_unfold)
  have a: "\<forall>sessionId s. Map_get (activeSessions svc) sessionId = Some s \<longrightarrow>
            (Map_get (activeSessions svc') sessionId = None \<longleftrightarrow> now - createdAt s > maxAge)
          \<and> (\<not> now - createdAt s > maxAge \<longrightarrow> Map_get (activeSessions svc') sessionId = Some s)"
    using wf by (simp add: surv Map_get_filter wf_service_def)
  have b: "n + getActiveSessionsCount svc' = getActiveSessionsCount svc"
    using part by (simp add: n surv getActiveSessionsCount_def Map_size_def)
  have c: "getActiveSessionsCount svc'
           = length (filter (\<lambda>(sessionId, s). now - createdAt s \<le> maxAge) (activeSessions svc))"
    by (simp add: surv keep_le getActiveSessionsCount_def Map_size_def)
  have d: "maxAge = 0 \<and> (\<forall>(sessionId, s) \<in> set (activeSessions svc). createdAt s < now) \<longrightarrow>
            getActiveSessionsCount svc' = 0 \<and> n = getActiveSessionsCount svc"
  proof
    assume h: "maxAge = 0 \<and> (\<forall>(sessionId, s) \<in> set (activeSessions svc). createdAt s < now)"
    then have "filter ?keep (activeSessions svc) = []"
      by (auto simp: filter_empty_conv)
    then have "getActiveSessionsCount svc' = 0"
      by (simp add: surv getActiveSessionsCount_def Map_size_def)
    with b show "getActiveSessionsCount svc' = 0 \<and> n = getActiveSessionsCount svc" by simp
  qed
  from a b c d show ?thesis by blast
qed

theorem cleanupExpiredSessions_sweep_witness:
  "wf_service svc_pair
   \<and> getActiveSessionsCount svc_pair = 2
   \<and> cleanupExpiredSessions 0 4000 svc_pair = (2, svc0)
   \<and> getActiveSessionsCount svc0 = 0
   \<and> cleanupExpiredSessions 1000 4000 svc_pair = (1, \<lparr>activeSessions = [(''session_2'', session2)]\<rparr>)"
proof -
  have wf: "wf_service svc_pair"
    by (simp add: svc_pair_eq wf_service_def)
  have c0: "cleanupExpiredSessions 0 4000 svc_pair = (2, svc0)"
    by (simp add: svc_pair_eq svc0_def cleanupExpiredSessions_def Map_delete_def session3_def
          session2_def)
  have c1: "cleanupExpiredSessions 1000 4000 svc_pair
              = (1, \<lparr>activeSessions = [(''session_2'', session2)]\<rparr>)"
    by (simp add: svc_pair_eq cleanupExpiredSessions_def Map_delete_def session3_def session2_def)
  have old: "\<forall>(sessionId, s) \<in> set (activeSessions svc_pair). createdAt s < 4000"
    by (simp add: svc_pair_eq session3_def session2_def)
  have "getActiveSessionsCount svc0 = 0 \<and> 2 = getActiveSessionsCount svc_pair"
    using cleanupExpiredSessions_sweep [OF wf c0] old by blast
  with wf c0 c1 show ?thesis
    by simp
qed

text \<open>
  C7 as the specification states it fails: a session started in the millisecond of
  the sweep has age 0, which is not greater than 0, so \<^verbatim>\<open>cleanupExpiredSessions(0)\<close>
  keeps it, returns 0, and the count stays 1.
\<close>

theorem cleanupExpiredSessions_sweep_counterexample:
  "svc1 = run svc0 [Start (\<lambda>pin. Inr resident0) ''session_1'' 1000 (Some ''123456'')]
   \<and> getActiveSessionsCount svc1 = 1
   \<and> cleanupExpiredSessions 0 1000 svc1 = (0, svc1)
   \<and> getActiveSessionsCount (snd (cleanupExpiredSessions 0 1000 svc1)) = 1"
  by (simp add: svc1_def [symmetric])
     (simp add: svc1_eq cleanupExpiredSessions_def getActiveSessionsCount_def Map_size_def
        session1_def)

section \<open>The mode of a session over sequences of operations\<close>

lemma Map_get_filter_keys:
  "Map_get (filter (\<lambda>e. fst e \<notin> K) m) k = (if k \<in> K then None else Map_get m k)"
  by (induction m) (auto simp: Map_get_def)

lemma step_keeps_mode:
  assumes "\<not> writes_mode sessionId a"
      and "Map_get (activeSessions (step svc a)) sessionId = Some s'"
  shows "\<exists>s. Map_get (activeSessions svc) sessionId = Some s \<and> mode s' = mode s"
proof (cases a)
  case (Start searchByOTP newId now otp_in)
  with assms show ?thesis
    by (auto simp: startCaptureSession_def Let_def Map_get_Map_set
             split: option.splits if_splits sum.splits)
next
  case (SetMode now sid m)
  with assms show ?thesis
    by (auto simp: setCaptureMode_def getSession_def Let_def Map_get_Map_set
             split: option.splits if_splits)
next
  case (Capture storeImage_call now sid captureType imageBuffer)
  with assms show ?thesis
    by (auto simp: processCapture_def getSession_def Let_def Map_get_Map_set
             split: option.splits if_splits sum.splits)
next
  case (Complete sid)
  with assms show ?thesis
    by (auto simp: completeSession_def getSession_def Map_get_Map_delete
             split: option.splits if_splits)
next
  case (Cleanup maxAge now)
  with assms show ?thesis
    by (auto simp: cleanupExpiredSessions_def Let_def foldl_Map_delete Map_get_filter_keys
             simp del: set_map split: if_splits)
qed

lemma run_keeps_mode:
  assumes "\<forall>a \<in> set ops. \<not> writes_mode sessionId a"
      and "Map_get (activeSessions (run svc ops)) sessionId = Some s'"
  shows "\<exists>s. Map_get (activeSessions svc) sessionId = Some s \<and> mode s' = mode s"
  using assms
proof (induction ops arbitrary: svc)
  case Nil
  then show ?case by (simp add: run_def)
next
  case (Cons a ops)
  from Cons.prems have "Map_get (activeSessions (run (step svc a) ops)) sessionId = Some s'"
    by (simp add: run_def)
  with Cons.IH Cons.prems(1) obtain s1 where
    s1: "Map_get (activeSessions (step svc a)) sessionId = Some s1" "mode s' = mode s1"
    by auto
  from Cons.prems(1) have "\<not> writes_mode sessionId a" by simp
  from step_keeps_mode [OF this s1(1)] s1(2) show ?case by auto
qed

text \<open>
  C8, as the code has it. The mode of a session is written by \<^verbatim>\<open>setCaptureMode\<close> on
  that session, every time it is called and not only the first time: on a live
  session with a valid mode it succeeds and the mode becomes its argument, whatever
  the mode was before. Over every sequence of operations that contains no
  \<^verbatim>\<open>setCaptureMode\<close> on the session (and no \<^verbatim>\<open>startCaptureSession\<close> that generates
  its identifier again), a session that is live at the end was live at the start
  and has the mode it had there: \<^verbatim>\<open>processCapture\<close>, \<^verbatim>\<open>completeSession\<close>,
  \<^verbatim>\<open>cleanupExpiredSessions\<close> and operations on other sessions never change it.
\<close>

theorem mode_written_by_setCaptureMode_only:
  "((\<forall>a \<in> set ops. \<not> writes_mode sessionId a)
      \<and> Map_get (activeSessions (run svc ops)) sessionId = Some s'
    \<longrightarrow> (\<exists>s. Map_get (activeSessions svc) sessionId = Some s \<and> mode s' = mode s))
   \<and> (Map_get (activeSessions svc) sessionId = Some s \<and> (m = ''pedestrian'' \<or> m = ''vehicle'')
    \<longrightarrow> (\<exists>r svc'. setCaptureMode now svc sessionId m = (Inr r, svc')
           \<and> map_option mode (Map_get (activeSessions svc') sessionId) = Some (Some m)))"
proof (intro conjI impI)
  assume "(\<forall>a \<in> set ops. \<not> writes_mode sessionId a)
      \<and> Map_get (activeSessions (run svc ops)) sessionId = Some s'"
  then show "\<exists>s. Map_get (activeSessions svc) sessionId = Some s \<and> mode s' = mode s"
    using run_keeps_mode by blast
next
  assume "Map_get (activeSessions svc) sessionId = Some s \<and> (m = ''pedestrian'' \<or> m = ''vehicle'')"
  then show "\<exists>r svc'. setCaptureMode now svc sessionId m = (Inr r, svc')
           \<and> map_option mode (Map_get (activeSessions svc') sessionId) = Some (Some m)"
    by (auto simp: setCaptureMode_def getSession_def Let_def Map_get_Map_set)
qed

theorem mode_written_by_setCaptureMode_only_witness:
  "\<not> writes_mode ''session_1'' (Capture store_ok 3000 ''session_1'' ''person'' (Some [1, 2, 3]))
   \<and> \<not> writes_mode ''session_1'' (Cleanup 5000 3500)
   \<and> Map_get (activeSessions svc2) ''session_1'' = Some (session1 (Some ''pedestrian'') (Some 2000))
   \<and> Map_get (activeSessions (run svc2 [Capture store_ok 3000 ''session_1'' ''person''
         (Some [1, 2, 3]), Cleanup 5000 3500])) ''session_1'' = Some (session3 ''pedestrian'' 3000)
   \<and> mode (session3 ''pedestrian'' 3000) = mode (session1 (Some ''pedestrian'') (Some 2000))
   \<and> (\<exists>r svc'. setCaptureMode 4000 svc2 ''session_1'' ''vehicle'' = (Inr r, svc')
           \<and> map_option mode (Map_get (activeSessions svc') ''session_1'') = Some (Some ''vehicle''))"
proof -
  have "run svc2 [Capture store_ok 3000 ''session_1'' ''person'' (Some [1, 2, 3]),
                  Cleanup 5000 3500] = run svc3 [Cleanup 5000 3500]"
    by (simp add: run_def svc3_def)
  also have "\<dots> = svc3"
    by (simp add: svc3_eq run_def cleanupExpiredSessions_def session3_def)
  finally have r: "run svc2 [Capture store_ok 3000 ''session_1'' ''person'' (Some [1, 2, 3]),
                     Cleanup 5000 3500] = svc3" .
  have nw: "\<forall>a \<in> set [Capture store_ok 3000 ''session_1'' ''person'' (Some [1, 2, 3]),
                       Cleanup 5000 3500]. \<not> writes_mode ''session_1'' a"
    by simp
  from mode_written_by_setCaptureMode_only [of "[Capture store_ok 3000 ''session_1'' ''person'' (Some [1, 2, 3]), Cleanup 5000 3500]"
              "''session_1''" svc2 "session3 ''pedestrian'' 3000"
              "session1 (Some ''pedestrian'') (Some 2000)" "''vehicle''" 4000]
       r nw live_svc2 live_svc3
  show ?thesis
    by auto
qed

text \<open>
  C8 as the specification states it fails: after a first successful
  \<^verbatim>\<open>setCaptureMode\<close> to pedestrian, a second one to vehicle succeeds and the mode is
  vehicle.
\<close>

theorem mode_immutable_counterexample:
  "map_option mode (Map_get (activeSessions
       (run svc0 [Start (\<lambda>pin. Inr resident0) ''session_1'' 1000 (Some ''123456''),
                  SetMode 2000 ''session_1'' ''pedestrian''])) ''session_1'')
     = Some (Some ''pedestrian'')
   \<and> map_option mode (Map_get (activeSessions
       (run svc0 [Start (\<lambda>pin. Inr resident0) ''session_1'' 1000 (Some ''123456''),
                  SetMode 2000 ''session_1'' ''pedestrian'',
                  SetMode 2500 ''session_1'' ''vehicle''])) ''session_1'')
     = Some (Some ''vehicle'')"
proof -
  have a: "run svc0 [Start (\<lambda>pin. Inr resident0) ''session_1'' 1000 (Some ''123456''),
                  SetMode 2000 ''session_1'' ''pedestrian''] = svc2"
    by (simp add: svc2_def svc1_def run_def)
  have b: "run svc0 [Start (\<lambda>pin. Inr resident0) ''session_1'' 1000 (Some ''123456''),
                  SetMode 2000 ''session_1'' ''pedestrian'',
                  SetMode 2500 ''session_1'' ''vehicle''] = run svc2 [SetMode 2500 ''session_1'' ''vehicle'']"
    by (simp add: svc2_def svc1_def run_def)
  show ?thesis
    unfolding a b
    by (simp add: svc2_eq run_def setCaptureMode_def getSession_def Map_get_def session1_def)
qed

section \<open>The storage engine on concrete bytes\<close>

lemma length_randomBytes: "length (randomBytes r n) = n"
  by (simp add: randomBytes_def)

lemma iv0: "randomBytes (rng env0) 16 = replicate 16 5"
  by (simp add: randomBytes_def env0_def map_replicate_const)

lemma aad0: "utf8 ''seren-capture'' = [115, 101, 114, 101, 110, 45, 99, 97, 112, 116, 117, 114, 101]"
  by (simp add: utf8_def)

lemma enc0: "encryptImage demo_crypto cfg0 (rng env0) [10, 20]
    = Inr (replicate 16 5 @ replicate 16 142 @ [11, 21])"
  by (simp add: encryptImage_def demo_crypto_def iv0 aad0 cfg0_def demo_tag_def Let_def
        sum_list_replicate)

lemma dec0: "decryptImage demo_crypto cfg0 (replicate 16 5 @ replicate 16 142 @ [11, 21]) = Inr [10, 20]"
  by (simp add: decryptImage_def demo_crypto_def aad0 cfg0_def demo_tag_def Let_def
        sum_list_replicate)

lemma dec0_tampered:
  "decryptImage demo_crypto cfg0 (tamper (replicate 16 5 @ replicate 16 142 @ [11, 21]))
     = Inl (Error ''Failed to decrypt image'')"
  by (simp add: decryptImage_def demo_crypto_def aad0 cfg0_def demo_tag_def Let_def
        sum_list_replicate tamper_def butlast_append)

lemma path_person:
  "path_join (storageDir cfg0) ''person'' ''id-1_1970-01-01T00-00-03-000Z.jpg'' = path1"
  by (simp add: path_join_def path_normalize_def cfg0_def path1_def Let_def)

lemma path_meta1:
  "path_join (storageDir cfg0) ''metadata'' ''id-1.json'' = ''storage/images/metadata/id-1.json''"
  by (simp add: path_join_def path_normalize_def cfg0_def Let_def)

lemma path_meta2:
  "path_join (storageDir cfg0) ''metadata'' ''id-2.json'' = ''storage/images/metadata/id-2.json''"
  by (simp add: path_join_def path_normalize_def cfg0_def Let_def)

lemma process0: "processImage env0 cfg0 [10, 20, 30, 40] = Inr [10, 20]"
  by (simp add: processImage_def env0_def)

lemma env0_simps:
  "writeFile_fault env0 = (\<lambda>p. None)" "writeJson_fault env0 = (\<lambda>p. None)"
  "uuidv4 env0 = ''id-1''" "toISOString env0 t = ''1970-01-01T00:00:03.000Z''"
  by (simp_all add: env0_def)

lemma md0_simps:
  "sm_captureType md0 = ''person''" "sm_timestamp md0 = 3000" "sm_residentInfo md0 = resident0"
  by (simp_all add: md0_def)

lemma store0:
  "storeImage demo_crypto env0 cfg0 st0 (Some [10, 20, 30, 40]) md0
     = (Inr \<lparr>success = True, fileId = ''id-1'',
              sr_filename = ''id-1_1970-01-01T00-00-03-000Z.jpg'',
              sr_filePath = path1, metadata = metadata1\<rparr>,
        \<lparr>files = (\<lambda>p. None)(path1 \<mapsto> enc1),
         metadataFiles = (\<lambda>p. None)(''storage/images/metadata/id-1.json'' \<mapsto> metadata1)\<rparr>)"
proof -
  have c: "maxFileSize cfg0 = 5242880"
    by (simp add: cfg0_def)
  have s: "sha256_hex demo_crypto = (\<lambda>b. ''digest'')"
    by (simp add: demo_crypto_def)
  have r: "resident_id resident0 = ''123''" "resident_name resident0 = ''John Doe''"
          "unitNumber resident0 = ''A101''"
    by (simp_all add: resident0_def)
  show ?thesis
    by (simp add: storeImage_def process0 enc0 env0_simps c md0_simps s r saveMetadata_def
          path_person path_meta1 path1_def st0_def Let_def metadata1_def enc1_def
          snapshot0_def)
qed

lemma st1_eq:
  "st1 = \<lparr>files = (\<lambda>p. None)(path1 \<mapsto> enc1),
         metadataFiles = (\<lambda>p. None)(''storage/images/metadata/id-1.json'' \<mapsto> metadata1)\<rparr>"
  by (simp add: st1_def store0)

lemma metadata1_path: "md_filePath metadata1 = path1"
  by (simp add: metadata1_def path1_def)

lemma dec1: "decryptImage demo_crypto cfg0 enc1 = Inr [10, 20]"
  by (simp add: enc1_def dec0)

lemma dec1_tampered: "decryptImage demo_crypto cfg0 (tamper enc1) = Inl (Error ''Failed to decrypt image'')"
  by (simp add: enc1_def dec0_tampered)

lemma retrieve_stored:
  "retrieveImage demo_crypto cfg0 st1 ''id-1'' = Inr \<lparr>rt_image = [10, 20], rt_metadata = metadata1\<rparr>"
  by (simp add: retrieveImage_def st1_eq path_meta1 metadata1_path dec1)

lemma retrieve_tampered:
  "retrieveImage demo_crypto cfg0 st1_tampered ''id-1'' = Inl (Error ''Failed to retrieve image'')"
  by (simp add: retrieveImage_def st1_tampered_def st1_eq path_meta1 metadata1_path dec1_tampered)

lemma retrieve_missing:
  "retrieveImage demo_crypto cfg0 st1_tampered ''id-2'' = Inl (Error ''Failed to retrieve image'')"
  by (simp add: retrieveImage_def st1_tampered_def st1_eq path_meta2)

section \<open>Encryption and decryption\<close>

text \<open>
  The layout and the slicing agree: for a module that has both members, with a
  cipher whose tag is sixteen bytes and a decipher that accepts what the cipher
  made, \<open>encryptImage\<close> yields the sixteen byte nonce, then the tag, then the
  ciphertext, and \<open>decryptImage\<close> gives the plaintext back.
\<close>

lemma encryptImage_layout:
  assumes "encryptImage C cfg r b = Inr e"
  shows "\<exists>cipher encrypted authTag.
           createCipherGCM C = Some cipher
         \<and> cipher ''aes-256-gcm'' (encryptionKey cfg) (randomBytes r 16) (utf8 ''seren-capture'') b
             = Some (encrypted, authTag)
         \<and> e = randomBytes r 16 @ authTag @ encrypted"
  using assms
  by (auto simp: encryptImage_def Let_def split: option.splits)

lemma encrypt_decrypt_roundtrip:
  assumes enc: "createCipherGCM C = Some cipher"
      and dec: "createDecipherGCM C = Some decipher"
      and tag16: "\<And>alg key iv aad pt ct tag. cipher alg key iv aad pt = Some (ct, tag) \<Longrightarrow> length tag = 16"
      and aead: "\<And>alg key iv aad pt ct tag.
                   cipher alg key iv aad pt = Some (ct, tag) \<Longrightarrow> decipher alg key iv aad tag ct = Some pt"
      and ok: "encryptImage C cfg r b = Inr e"
  shows "decryptImage C cfg e = Inr b"
proof -
  from encryptImage_layout [OF ok] enc obtain encrypted authTag where
    c: "cipher ''aes-256-gcm'' (encryptionKey cfg) (randomBytes r 16) (utf8 ''seren-capture'') b
          = Some (encrypted, authTag)"
    and e: "e = randomBytes r 16 @ authTag @ encrypted"
    by auto
  from tag16 [OF c] have t: "length authTag = 16" .
  have sl: "take 16 e = randomBytes r 16" "take 16 (drop 16 e) = authTag" "drop 32 e = encrypted"
    by (simp_all add: e t length_randomBytes)
  from aead [OF c] show ?thesis
    by (simp add: decryptImage_def Let_def dec sl)
qed

lemma demo_roundtrip:
  "encryptImage demo_crypto cfg0 (rng env0) [10, 20]
     = Inr (replicate 16 5 @ replicate 16 142 @ [11, 21])
   \<and> decryptImage demo_crypto cfg0 (replicate 16 5 @ replicate 16 142 @ [11, 21]) = Inr [10, 20]"
  by (simp add: enc0 dec0)

text \<open>
  C6. The layout and the round trip are what the code sets out to do, and they hold
  for the stand-in module above. On the module Node.js provides they fail for every
  input:
  \<^verbatim>\<open>crypto.createCipherGCM\<close> is not a function, the call throws inside the
  \<^verbatim>\<open>try\<close> block, and \<open>encryptImage\<close> throws \<^verbatim>\<open>Failed to encrypt image\<close> for every
  buffer, producing no output at all; \<open>decryptImage\<close> throws
  \<^verbatim>\<open>Failed to decrypt image\<close> for every input, untampered bytes included.
\<close>

theorem encryptImage_node_crypto_fails:
  "encryptImage (node_crypto sha) cfg r b = Inl (Error ''Failed to encrypt image'')
   \<and> decryptImage (node_crypto sha) cfg e = Inl (Error ''Failed to decrypt image'')"
  by (simp add: encryptImage_def decryptImage_def node_crypto_def)

lemma storeImage_node_crypto_fails:
  "fst (storeImage (node_crypto sha) env cfg st imageBuffer md) \<noteq> Inr res"
  by (simp add: storeImage_def Let_def encryptImage_def node_crypto_def
        split: option.splits sum.splits)

section \<open>Storing an image\<close>

text \<open>
  An absent or empty buffer is refused before anything is written. A buffer that is
  not empty and within the size limit is stored whenever the codec reads it, the
  encryption succeeds and the two writes do not fail; image bytes and metadata
  record are then both in the storage directory.
\<close>

lemma storeImage_empty:
  "storeImage C env cfg st None md = (Inl (Error ''Image buffer is empty''), st)"
  "storeImage C env cfg st (Some []) md = (Inl (Error ''Image buffer is empty''), st)"
  by (simp_all add: storeImage_def)

lemma storeImage_succeeds:
  assumes "buf \<noteq> []" "length buf \<le> maxFileSize cfg"
      and "sharp_jpeg env (compressionQuality cfg) buf = Some processed"
      and "encryptImage C cfg (rng env) processed = Inr enc"
      and "\<And>p. writeFile_fault env p = None" "\<And>p. writeJson_fault env p = None"
  shows "\<exists>res st'. storeImage C env cfg st (Some buf) md = (Inr res, st')
           \<and> files st' (sr_filePath res) = Some enc
           \<and> metadataFiles st' (path_join (storageDir cfg) ''metadata'' (fileId res @ ''.json''))
                = Some (metadata res)"
  using assms
  by (simp add: storeImage_def processImage_def saveMetadata_def Let_def)

section \<open>Captures on the storage engine as shipped\<close>

text \<open>
  With the engine of \<^verbatim>\<open>imageStorage.js\<close> on the module Node.js provides behind it,
  the storage call never resolves, so no \<^verbatim>\<open>processCapture\<close> succeeds, whatever the
  session, the capture type and the image.
\<close>

lemma imageStorage_node_crypto_rejects:
  "imageStorage_storeImage (node_crypto sha) env cfg st imageBuffer md \<noteq> Inr r"
  using storeImage_node_crypto_fails [of sha env cfg st imageBuffer md r]
  by (simp add: imageStorage_storeImage_def)

lemma processCapture_node_crypto_fails:
  "fst (processCapture (imageStorage_storeImage (node_crypto sha) env cfg st) now svc sessionId
          captureType imageBuffer) \<noteq> Inr res"
  by (auto simp: processCapture_def Let_def imageStorage_node_crypto_rejects
           split: sum.splits if_splits)

lemma encryptImage_node:
  "encryptImage (node_crypto sha) cfg r b = Inl (Error ''Failed to encrypt image'')"
  by (simp add: encryptImage_def node_crypto_def)

lemma cfg0_max: "maxFileSize cfg0 = 5242880"
  by (simp add: cfg0_def)

lemma storeImage_node_crypto_concrete:
  "imageStorage_storeImage (node_crypto sha) env0 cfg0 st0 (Some [10, 20, 30, 40]) md
     = Inl (Error ''Failed to encrypt image'')"
  by (simp add: imageStorage_storeImage_def storeImage_def process0 cfg0_max Let_def
        encryptImage_node)

text \<open>
  C3. The mode check is as stated (lemma \<open>processCapture_mode_check\<close>), but the
  person capture that should succeed does not. On the pedestrian session of the
  concrete states, \<^verbatim>\<open>processCapture\<close> of a person image that is not empty, within
  the size limit and readable by the codec fails with \<^verbatim>\<open>Failed to encrypt image\<close>
  and leaves the session as it was; and on this engine a person capture succeeds
  for no session and no image at all.
\<close>

theorem processCapture_person_fails_on_engine:
  "map_option mode (Map_get (activeSessions svc2) ''session_1'') = Some (Some ''pedestrian'')
   \<and> processCapture (imageStorage_storeImage (node_crypto sha) env0 cfg0 st0) 3000 svc2
         ''session_1'' ''person'' (Some [10, 20, 30, 40])
       = (Inl (Error ''Failed to encrypt image''), svc2)
   \<and> fst (processCapture (imageStorage_storeImage (node_crypto sha) env cfg st) now svc sessionId
           ''person'' imageBuffer) \<noteq> Inr res"
proof (intro conjI)
  show "map_option mode (Map_get (activeSessions svc2) ''session_1'') = Some (Some ''pedestrian'')"
    by (simp add: live_svc2 session1_def)
  show "processCapture (imageStorage_storeImage (node_crypto sha) env0 cfg0 st0) 3000 svc2
         ''session_1'' ''person'' (Some [10, 20, 30, 40])
       = (Inl (Error ''Failed to encrypt image''), svc2)"
    by (simp add: processCapture_def getSession_def live_svc2 session1_def Let_def
          storeImage_node_crypto_concrete)
  show "fst (processCapture (imageStorage_storeImage (node_crypto sha) env cfg st) now svc sessionId
           ''person'' imageBuffer) \<noteq> Inr res"
    by (rule processCapture_node_crypto_fails)
qed

text \<open>
  C10. On the session of the concrete states whose mode was never set,
  \<^verbatim>\<open>processCapture\<close> of the same person image fails with
  \<^verbatim>\<open>Failed to encrypt image\<close>: the capture is not accepted, and the session stays
  \<^verbatim>\<open>active\<close> with no descriptor and no \<^verbatim>\<open>completedAt\<close>. What the orchestrator
  would do had the storage call succeeded is lemma \<open>processCapture_unset_mode\<close>.
\<close>

theorem processCapture_unset_mode_fails_on_engine:
  "map_option mode (Map_get (activeSessions svc1) ''session_1'') = Some None
   \<and> processCapture (imageStorage_storeImage (node_crypto sha) env0 cfg0 st0) 2000 svc1
         ''session_1'' ''person'' (Some [10, 20, 30, 40])
       = (Inl (Error ''Failed to encrypt image''), svc1)
   \<and> map_option (\<lambda>s. (status s, person (captures s), completedAt s))
         (Map_get (activeSessions (snd (processCapture
            (imageStorage_storeImage (node_crypto sha) env0 cfg0 st0) 2000 svc1
            ''session_1'' ''person'' (Some [10, 20, 30, 40])))) ''session_1'')
       = Some (''active'', None, None)"
proof -
  have f: "processCapture (imageStorage_storeImage (node_crypto sha) env0 cfg0 st0) 2000 svc1
         ''session_1'' ''person'' (Some [10, 20, 30, 40])
       = (Inl (Error ''Failed to encrypt image''), svc1)"
    by (simp add: processCapture_def getSession_def live_svc1 session1_def Let_def
          storeImage_node_crypto_concrete)
  show ?thesis
    by (simp add: f live_svc1 session1_def)
qed

section \<open>The compression ratio\<close>

text \<open>
  C9. For every successful \<open>storeImage\<close> call, whatever the module, the codec and
  the file system: the input buffer is present and not empty, \<^verbatim>\<open>originalSize\<close> is
  its length, \<^verbatim>\<open>fileSize\<close> is the length of the encrypted bytes that were written
  under the record's path, and \<^verbatim>\<open>compressionRatio\<close> is one minus the quotient of
  the two, times one hundred. (The quotient is taken in the reals.)
\<close>

theorem storeImage_compressionRatio:
  assumes ok: "storeImage C env cfg st imageBuffer md = (Inr res, st')"
  shows "\<exists>buf enc. imageBuffer = Some buf
           \<and> 0 < length buf
           \<and> files st' (md_filePath (metadata res)) = Some enc
           \<and> originalSize (metadata res) = length buf
           \<and> md_fileSize (metadata res) = length enc
           \<and> compressionRatio (metadata res)
                = (1 - real (length enc) / real (length buf)) * 100"
proof -
  from ok obtain buf where buf: "imageBuffer = Some buf"
    by (cases imageBuffer) (auto simp: storeImage_def)
  from ok buf have len: "0 < length buf" "\<not> length buf > maxFileSize cfg"
    by (auto simp: storeImage_def split: if_splits)
  from ok buf len obtain processed where p: "processImage env cfg buf = Inr processed"
    by (cases "processImage env cfg buf") (auto simp: storeImage_def Let_def)
  from ok buf len p obtain enc where e: "encryptImage C cfg (rng env) processed = Inr enc"
    by (cases "encryptImage C cfg (rng env) processed") (auto simp: storeImage_def Let_def)
  from ok buf len p e show ?thesis
    by (auto simp: storeImage_def Let_def saveMetadata_def split: option.splits)
qed

theorem storeImage_compressionRatio_witness:
  "\<exists>res st'. storeImage demo_crypto env0 cfg0 st0 (Some [10, 20, 30, 40]) md0 = (Inr res, st')
      \<and> originalSize (metadata res) = 4
      \<and> md_fileSize (metadata res) = 34
      \<and> files st' (md_filePath (metadata res)) = Some (replicate 16 5 @ replicate 16 142 @ [11, 21])
      \<and> compressionRatio (metadata res) = (1 - 34 / 4) * 100"
  using storeImage_compressionRatio [OF store0]
  by (simp add: store0 metadata1_def enc1_def path1_def)

section \<open>Retrieval\<close>

text \<open>
  On the module Node.js provides there is no decipher, so \<open>retrieveImage\<close> fails
  for every identifier and every content of the storage directory.
\<close>

lemma retrieveImage_node_crypto_fails:
  "retrieveImage (node_crypto sha) cfg st imgId = Inl (Error ''Failed to retrieve image'')"
  by (simp add: retrieveImage_def decryptImage_def node_crypto_def Let_def split: option.splits)

text \<open>
  On a module that does authenticate, the slicing of \<open>decryptImage\<close> hands every
  altered byte to the decipher: whichever single byte of a file made by the
  stand-in cipher is altered, in the nonce, the tag or the ciphertext, the stand-in
  decipher rejects it, and the stored image is not returned.
\<close>

lemma sum_list_update_group:
  fixes xs :: "'a::ab_group_add list"
  shows "i < length xs \<Longrightarrow> sum_list (xs[i := b]) = sum_list xs + (b - xs ! i)"
proof (induction xs arbitrary: i)
  case Nil
  then show ?case by simp
next
  case (Cons x xs)
  then show ?case by (cases i) (simp_all add: algebra_simps)
qed

lemma replicate16_neq: "(s :: byte) \<noteq> s' \<Longrightarrow> replicate 16 s \<noteq> replicate 16 s'"
  by (simp add: replicate_eq_replicate)

lemma demo_rejects_every_alteration:
  assumes iv: "length iv = 16"
      and tag: "tag = demo_tag key iv (utf8 ''seren-capture'') ct"
      and key: "key = encryptionKey cfg"
      and alt: "single_byte_altered (iv @ tag @ ct) enc'"
  shows "decryptImage demo_crypto cfg enc' = Inl (Error ''Failed to decrypt image'')"
proof -
  let ?aad = "utf8 ''seren-capture''"
  from tag have ltag: "length tag = 16" by (simp add: demo_tag_def)
  from alt obtain i b where i: "i < length (iv @ tag @ ct)" and b: "b \<noteq> (iv @ tag @ ct) ! i"
    and enc': "enc' = (iv @ tag @ ct)[i := b]"
    by (auto simp: single_byte_altered_def)
  have rej: "demo_tag key iv' ?aad ct' \<noteq> tag' \<Longrightarrow>
               take 16 enc' = iv' \<Longrightarrow> take 16 (drop 16 enc') = tag' \<Longrightarrow> drop 32 enc' = ct' \<Longrightarrow>
               ?thesis" for iv' tag' ct'
    by (auto simp: decryptImage_def demo_crypto_def Let_def key)
  consider "i < 16" | "16 \<le> i" "i < 32" | "32 \<le> i" by linarith
  then show ?thesis
  proof cases
    case 1
    have e: "enc' = iv[i := b] @ tag @ ct"
      using 1 iv by (simp add: enc' list_update_append1)
    from 1 iv b have bi: "b \<noteq> iv ! i" by (simp add: nth_append)
    have "sum_list (key @ iv[i := b] @ ?aad @ ct) = sum_list (key @ iv @ ?aad @ ct) + (b - iv ! i)"
      using 1 iv by (simp add: sum_list_update_group algebra_simps)
    with bi have "sum_list (key @ iv[i := b] @ ?aad @ ct) \<noteq> sum_list (key @ iv @ ?aad @ ct)"
      by simp
    then have "demo_tag key (iv[i := b]) ?aad ct \<noteq> tag"
      by (simp add: tag demo_tag_def replicate_eq_replicate)
    then show ?thesis
      by (rule rej) (simp_all add: e iv ltag)
  next
    case 2
    then have lt: "i - 16 < 16" by simp
    have e: "enc' = iv @ tag[i - 16 := b] @ ct"
      using 2 iv ltag lt by (simp add: enc' list_update_append)
    from 2 iv ltag lt b have bi: "b \<noteq> tag ! (i - 16)" by (simp add: nth_append)
    have "tag[i - 16 := b] \<noteq> tag"
    proof
      assume "tag[i - 16 := b] = tag"
      then have "tag[i - 16 := b] ! (i - 16) = tag ! (i - 16)" by simp
      with lt ltag bi show False by simp
    qed
    then have "demo_tag key iv ?aad ct \<noteq> tag[i - 16 := b]"
      using tag by auto
    then show ?thesis
      by (rule rej) (simp_all add: e iv ltag)
  next
    case 3
    from 3 i iv ltag have ic: "i - 32 < length ct" by simp
    from 3 have ge: "\<not> i - 16 < 16" "i - 16 - 16 = i - 32" by simp_all
    have e: "enc' = iv @ tag @ ct[i - 32 := b]"
      using 3 iv ltag ge by (simp add: enc' list_update_append)
    from 3 iv ltag ge b have bi: "b \<noteq> ct ! (i - 32)" by (simp add: nth_append)
    have "sum_list (key @ iv @ ?aad @ ct[i - 32 := b])
            = sum_list (key @ iv @ ?aad @ ct) + (b - ct ! (i - 32))"
      using ic by (simp add: sum_list_update_group algebra_simps)
    with bi have "sum_list (key @ iv @ ?aad @ ct[i - 32 := b]) \<noteq> sum_list (key @ iv @ ?aad @ ct)"
      by simp
    then have "demo_tag key iv ?aad (ct[i - 32 := b]) \<noteq> tag"
      by (simp add: tag demo_tag_def replicate_eq_replicate)
    then show ?thesis
      by (rule rej) (simp_all add: e iv ltag)
  qed
qed

lemma enc1_genuine:
  "demo_tag (encryptionKey cfg0) (replicate 16 5) (utf8 ''seren-capture'') [11, 21]
     = replicate 16 142"
  by (simp add: demo_tag_def cfg0_def aad0 sum_list_replicate)

lemma demo_retrieve_altered:
  assumes "single_byte_altered enc1 enc'"
  shows "retrieveImage demo_crypto cfg0 (st1\<lparr>files := (files st1)(path1 \<mapsto> enc')\<rparr>) ''id-1''
           = Inl (Error ''Failed to retrieve image'')"
proof -
  have "decryptImage demo_crypto cfg0 enc' = Inl (Error ''Failed to decrypt image'')"
    by (rule demo_rejects_every_alteration
          [where iv = "replicate 16 5" and tag = "replicate 16 142" and ct = "[11, 21]"
             and key = "encryptionKey cfg0"])
       (use assms in \<open>simp_all add: enc1_genuine enc1_def\<close>)
  then show ?thesis
    by (simp add: retrieveImage_def st1_eq path_meta1 metadata1_path)
qed

text \<open>
  C5, as the code has it. \<open>retrieveImage\<close> has one error,
  \<^verbatim>\<open>Failed to retrieve image\<close>. It fails with it when no metadata record exists for
  the identifier. It fails with the same error, returning no bytes, when the
  authentication tag of the stored bytes does not verify, that is when the
  decipher does not accept them; and in particular, on the module the engine runs
  on, after any single byte of the stored file is altered. For every identifier
  and every module it fails with no other error, and what it returns otherwise is
  the metadata record together with bytes that the decipher produced, having
  accepted the tag, from the stored file sliced into nonce, tag and ciphertext.
\<close>

theorem retrieveImage_single_error:
  "(metadataFiles st (path_join (storageDir cfg) ''metadata'' (imgId @ ''.json'')) = None
      \<longrightarrow> retrieveImage C cfg st imgId = Inl (Error ''Failed to retrieve image''))
   \<and> (\<forall>md enc.
         metadataFiles st (path_join (storageDir cfg) ''metadata'' (imgId @ ''.json'')) = Some md
       \<and> files st (md_filePath md) = Some enc
       \<and> (\<forall>decipher. createDecipherGCM C = Some decipher \<longrightarrow>
             decipher ''aes-256-gcm'' (encryptionKey cfg) (take 16 enc) (utf8 ''seren-capture'')
               (take 16 (drop 16 enc)) (drop 32 enc) = None)
      \<longrightarrow> retrieveImage C cfg st imgId = Inl (Error ''Failed to retrieve image''))
   \<and> (\<forall>md enc enc'.
         metadataFiles st (path_join (storageDir cfg) ''metadata'' (imgId @ ''.json'')) = Some md
       \<and> files st (md_filePath md) = Some enc
       \<and> single_byte_altered enc enc'
      \<longrightarrow> retrieveImage (node_crypto sha) cfg
            (st\<lparr>files := (files st)(md_filePath md \<mapsto> enc')\<rparr>) imgId
            = Inl (Error ''Failed to retrieve image''))
   \<and> (\<forall>e. retrieveImage C cfg st imgId = Inl e \<longrightarrow> e = Error ''Failed to retrieve image'')
   \<and> (\<forall>d. retrieveImage C cfg st imgId = Inr d \<longrightarrow>
         (\<exists>enc decipher.
            metadataFiles st (path_join (storageDir cfg) ''metadata'' (imgId @ ''.json''))
              = Some (rt_metadata d)
          \<and> files st (md_filePath (rt_metadata d)) = Some enc
          \<and> createDecipherGCM C = Some decipher
          \<and> decipher ''aes-256-gcm'' (encryptionKey cfg) (take 16 enc) (utf8 ''seren-capture'')
               (take 16 (drop 16 enc)) (drop 32 enc) = Some (rt_image d)))"
proof (intro conjI allI impI)
  assume "metadataFiles st (path_join (storageDir cfg) ''metadata'' (imgId @ ''.json'')) = None"
  then show "retrieveImage C cfg st imgId = Inl (Error ''Failed to retrieve image'')"
    by (simp add: retrieveImage_def)
next
  fix md enc
  assume h: "metadataFiles st (path_join (storageDir cfg) ''metadata'' (imgId @ ''.json'')) = Some md
       \<and> files st (md_filePath md) = Some enc
       \<and> (\<forall>decipher. createDecipherGCM C = Some decipher \<longrightarrow>
             decipher ''aes-256-gcm'' (encryptionKey cfg) (take 16 enc) (utf8 ''seren-capture'')
               (take 16 (drop 16 enc)) (drop 32 enc) = None)"
  then have "\<exists>e. decryptImage C cfg enc = Inl e"
    by (cases "createDecipherGCM C") (auto simp: decryptImage_def Let_def)
  with h show "retrieveImage C cfg st imgId = Inl (Error ''Failed to retrieve image'')"
    by (auto simp: retrieveImage_def)
next
  fix md :: image_metadata and enc' :: buffer
  show "retrieveImage (node_crypto sha) cfg
            (st\<lparr>files := (files st)(md_filePath md \<mapsto> enc')\<rparr>) imgId
            = Inl (Error ''Failed to retrieve image'')"
    by (rule retrieveImage_node_crypto_fails)
next
  fix e
  assume "retrieveImage C cfg st imgId = Inl e"
  then show "e = Error ''Failed to retrieve image''"
    by (auto simp: retrieveImage_def Let_def split: option.splits sum.splits)
next
  fix d
  assume "retrieveImage C cfg st imgId = Inr d"
  then show "\<exists>enc decipher.
            metadataFiles st (path_join (storageDir cfg) ''metadata'' (imgId @ ''.json''))
              = Some (rt_metadata d)
          \<and> files st (md_filePath (rt_metadata d)) = Some enc
          \<and> createDecipherGCM C = Some decipher
          \<and> decipher ''aes-256-gcm'' (encryptionKey cfg) (take 16 enc) (utf8 ''seren-capture'')
               (take 16 (drop 16 enc)) (drop 32 enc) = Some (rt_image d)"
    by (auto simp: retrieveImage_def decryptImage_def Let_def split: option.splits sum.splits)
qed

lemma demo_rejects_tampered:
  "createDecipherGCM demo_crypto = Some decipher \<longrightarrow>
     decipher ''aes-256-gcm'' (encryptionKey cfg0) (take 16 (tamper enc1)) (utf8 ''seren-capture'')
       (take 16 (drop 16 (tamper enc1))) (drop 32 (tamper enc1)) = None"
  by (auto simp add: demo_crypto_def aad0 cfg0_def demo_tag_def Let_def enc1_def
        sum_list_replicate tamper_def butlast_append)

lemma enc1_altered: "single_byte_altered enc1 (enc1[33 := 99])"
  unfolding single_byte_altered_def
  by (rule exI [where x = 33], rule exI [where x = 99]) (simp add: enc1_def nth_append)

text \<open>
  The theorem on the concrete storage: an identifier without metadata record, the
  stored file with its last byte altered under the stand-in module, the stored file
  with its last byte altered under the module the engine runs on, and the
  untouched file under the stand-in module, which is returned.
\<close>

theorem retrieveImage_single_error_witness:
  "retrieveImage demo_crypto cfg0 st1_tampered ''id-2'' = Inl (Error ''Failed to retrieve image'')
   \<and> retrieveImage demo_crypto cfg0 st1_tampered ''id-1'' = Inl (Error ''Failed to retrieve image'')
   \<and> single_byte_altered enc1 (enc1[33 := 99])
   \<and> retrieveImage (node_crypto (\<lambda>b. ''digest'')) cfg0
        (st1\<lparr>files := (files st1)(md_filePath metadata1 \<mapsto> enc1[33 := 99])\<rparr>) ''id-1''
       = Inl (Error ''Failed to retrieve image'')
   \<and> (\<exists>d enc. retrieveImage demo_crypto cfg0 st1 ''id-1'' = Inr d \<and> rt_image d = [10, 20]
         \<and> metadataFiles st1 (path_join (storageDir cfg0) ''metadata'' (''id-1'' @ ''.json''))
              = Some (rt_metadata d)
         \<and> files st1 (md_filePath (rt_metadata d)) = Some enc)"
proof (intro conjI)
  have missing: "metadataFiles st1_tampered
                   (path_join (storageDir cfg0) ''metadata'' (''id-2'' @ ''.json'')) = None"
    by (simp add: st1_tampered_def st1_eq path_meta2)
  show "retrieveImage demo_crypto cfg0 st1_tampered ''id-2''
             = Inl (Error ''Failed to retrieve image'')"
    by (rule retrieveImage_single_error [THEN conjunct1, rule_format, OF missing])
next
  have present: "metadataFiles st1_tampered
                   (path_join (storageDir cfg0) ''metadata'' (''id-1'' @ ''.json''))
                   = Some metadata1"
    by (simp add: st1_tampered_def st1_eq path_meta1)
  have stored: "files st1_tampered (md_filePath metadata1) = Some (tamper enc1)"
    by (simp add: st1_tampered_def st1_eq metadata1_path)
  have rejected: "\<forall>decipher. createDecipherGCM demo_crypto = Some decipher \<longrightarrow>
             decipher ''aes-256-gcm'' (encryptionKey cfg0) (take 16 (tamper enc1))
               (utf8 ''seren-capture'') (take 16 (drop 16 (tamper enc1)))
               (drop 32 (tamper enc1)) = None"
    using demo_rejects_tampered by blast
  show "retrieveImage demo_crypto cfg0 st1_tampered ''id-1''
             = Inl (Error ''Failed to retrieve image'')"
    by (rule retrieveImage_single_error [THEN conjunct2, THEN conjunct1, rule_format,
               where md = metadata1 and enc = "tamper enc1"])
       (intro conjI present stored rejected)
next
  show "single_byte_altered enc1 (enc1[33 := 99])"
    by (rule enc1_altered)
next
  have present: "metadataFiles st1 (path_join (storageDir cfg0) ''metadata'' (''id-1'' @ ''.json''))
                   = Some metadata1"
    by (simp add: st1_eq path_meta1)
  have stored: "files st1 (md_filePath metadata1) = Some enc1"
    by (simp add: st1_eq metadata1_path)
  show "retrieveImage (node_crypto (\<lambda>b. ''digest'')) cfg0
        (st1\<lparr>files := (files st1)(md_filePath metadata1 \<mapsto> enc1[33 := 99])\<rparr>) ''id-1''
       = Inl (Error ''Failed to retrieve image'')"
    by (rule retrieveImage_single_error [THEN conjunct2, THEN conjunct2, THEN conjunct1,
               rule_format, where md = metadata1 and enc = enc1])
       (intro conjI present stored enc1_altered)
next
  let ?d = "\<lparr>rt_image = [10, 20], rt_metadata = metadata1\<rparr>"
  from retrieveImage_single_error [THEN conjunct2, THEN conjunct2, THEN conjunct2, THEN conjunct2,
         rule_format, OF retrieve_stored]
  obtain enc where "files st1 (md_filePath (rt_metadata ?d)) = Some enc"
       and "metadataFiles st1 (path_join (storageDir cfg0) ''metadata'' (''id-1'' @ ''.json''))
              = Some (rt_metadata ?d)"
    by blast
  with retrieve_stored
  have "retrieveImage demo_crypto cfg0 st1 ''id-1'' = Inr ?d \<and> rt_image ?d = [10, 20]
         \<and> metadataFiles st1 (path_join (storageDir cfg0) ''metadata'' (''id-1'' @ ''.json''))
              = Some (rt_metadata ?d)
         \<and> files st1 (md_filePath (rt_metadata ?d)) = Some enc"
    by simp
  then show "\<exists>d enc. retrieveImage demo_crypto cfg0 st1 ''id-1'' = Inr d \<and> rt_image d = [10, 20]
         \<and> metadataFiles st1 (path_join (storageDir cfg0) ''metadata'' (''id-1'' @ ''.json''))
              = Some (rt_metadata d)
         \<and> files st1 (md_filePath (rt_metadata d)) = Some enc"
    by blast
qed

text \<open>
  C5 as the specification states it fails: the two failures cannot be told apart.
  In the storage with the altered file, identifier \<^verbatim>\<open>id-2\<close> has no metadata record
  and the file of \<^verbatim>\<open>id-1\<close> fails authentication, and \<open>retrieveImage\<close> returns the
  same error for both.
\<close>

theorem retrieveImage_errors_counterexample:
  "metadataFiles st1_tampered (path_join (storageDir cfg0) ''metadata'' (''id-2'' @ ''.json'')) = None
   \<and> map_option (decryptImage demo_crypto cfg0) (files st1_tampered path1)
       = Some (Inl (Error ''Failed to decrypt image''))
   \<and> retrieveImage demo_crypto cfg0 st1_tampered ''id-2''
       = retrieveImage demo_crypto cfg0 st1_tampered ''id-1''"
proof -
  have "metadataFiles st1_tampered (path_join (storageDir cfg0) ''metadata'' (''id-2'' @ ''.json''))
          = None"
    by (simp add: st1_tampered_def st1_eq path_meta2)
  moreover have "map_option (decryptImage demo_crypto cfg0) (files st1_tampered path1)
       = Some (Inl (Error ''Failed to decrypt image''))"
    by (simp add: st1_tampered_def st1_eq dec1_tampered)
  ultimately show ?thesis
    by (simp add: retrieve_tampered retrieve_missing)
qed

end
